theory Spec2Isabelle
  imports Complex_Main
begin

section \<open>JavaScript numbers\<close>

text \<open>
  The valuation engines compute with JavaScript numbers. A number is modelled as a real
  (arithmetic on finite values is exact: rounding and overflow of IEEE doubles are not
  modelled) or one of the three special values the code can produce and test for:
  \<open>Infinity\<close>, \<open>-Infinity\<close> and \<open>NaN\<close>. There is one zero, taken as \<open>+0\<close>:
  a non-zero finite value divided by zero has the sign of the numerator.
\<close>

datatype jsnum = Num real | PosInf | NegInf | NaN

fun js_neg :: "jsnum \<Rightarrow> jsnum" where
  "js_neg (Num a) = Num (- a)"
| "js_neg PosInf = NegInf"
| "js_neg NegInf = PosInf"
| "js_neg NaN = NaN"

fun js_add :: "jsnum \<Rightarrow> jsnum \<Rightarrow> jsnum" where
  "js_add (Num a) (Num b) = Num (a + b)"
| "js_add NaN y = NaN"
| "js_add x NaN = NaN"
| "js_add PosInf NegInf = NaN"
| "js_add NegInf PosInf = NaN"
| "js_add PosInf y = PosInf"
| "js_add x PosInf = PosInf"
| "js_add NegInf y = NegInf"
| "js_add x NegInf = NegInf"

definition js_sub :: "jsnum \<Rightarrow> jsnum \<Rightarrow> jsnum" where
  "js_sub x y = js_add x (js_neg y)"

text \<open>The sign of an infinite product or quotient: \<open>Infinity\<close> times the sign of \<open>s\<close>.\<close>

definition js_inf_signed :: "real \<Rightarrow> jsnum" where
  "js_inf_signed s = (if 0 < s then PosInf else if s < 0 then NegInf else NaN)"

fun js_mul :: "jsnum \<Rightarrow> jsnum \<Rightarrow> jsnum" where
  "js_mul (Num a) (Num b) = Num (a * b)"
| "js_mul NaN y = NaN"
| "js_mul x NaN = NaN"
| "js_mul (Num a) PosInf = js_inf_signed a"
| "js_mul (Num a) NegInf = js_inf_signed (- a)"
| "js_mul PosInf (Num b) = js_inf_signed b"
| "js_mul NegInf (Num b) = js_inf_signed (- b)"
| "js_mul PosInf PosInf = PosInf"
| "js_mul PosInf NegInf = NegInf"
| "js_mul NegInf PosInf = NegInf"
| "js_mul NegInf NegInf = PosInf"

fun js_div :: "jsnum \<Rightarrow> jsnum \<Rightarrow> jsnum" where
  "js_div (Num a) (Num b) = (if b \<noteq> 0 then Num (a / b) else js_inf_signed a)"
| "js_div NaN y = NaN"
| "js_div x NaN = NaN"
| "js_div (Num a) PosInf = Num 0"
| "js_div (Num a) NegInf = Num 0"
| "js_div PosInf (Num b) = (if 0 \<le> b then PosInf else NegInf)"
| "js_div NegInf (Num b) = (if 0 \<le> b then NegInf else PosInf)"
| "js_div PosInf PosInf = NaN"
| "js_div PosInf NegInf = NaN"
| "js_div NegInf PosInf = NaN"
| "js_div NegInf NegInf = NaN"

text \<open>\<open>Math.pow(x, n)\<close> for the non-negative integer exponents the engines use.\<close>

fun js_pow :: "jsnum \<Rightarrow> nat \<Rightarrow> jsnum" where
  "js_pow x 0 = Num 1"
| "js_pow (Num a) n = Num (a ^ n)"
| "js_pow PosInf n = PosInf"
| "js_pow NegInf n = (if even n then PosInf else NegInf)"
| "js_pow NaN n = NaN"

text \<open>Comparisons: every comparison with \<open>NaN\<close> is false.\<close>

fun js_lt :: "jsnum \<Rightarrow> jsnum \<Rightarrow> bool" where
  "js_lt (Num a) (Num b) = (a < b)"
| "js_lt NaN y = False"
| "js_lt x NaN = False"
| "js_lt x NegInf = False"
| "js_lt PosInf y = False"
| "js_lt NegInf y = True"
| "js_lt x PosInf = True"

definition js_gt :: "jsnum \<Rightarrow> jsnum \<Rightarrow> bool" where
  "js_gt x y = js_lt y x"

fun js_le :: "jsnum \<Rightarrow> jsnum \<Rightarrow> bool" where
  "js_le (Num a) (Num b) = (a \<le> b)"
| "js_le NaN y = False"
| "js_le x NaN = False"
| "js_le NegInf y = True"
| "js_le x PosInf = True"
| "js_le x NegInf = False"
| "js_le PosInf y = False"

definition js_ge :: "jsnum \<Rightarrow> jsnum \<Rightarrow> bool" where
  "js_ge x y = js_le y x"

text \<open>\<open>Math.max\<close>, \<open>Math.min\<close> and \<open>Math.abs\<close>: \<open>NaN\<close> if an argument is \<open>NaN\<close>.\<close>

definition js_max :: "jsnum \<Rightarrow> jsnum \<Rightarrow> jsnum" where
  "js_max x y = (if x = NaN \<or> y = NaN then NaN else if js_lt x y then y else x)"

definition js_min :: "jsnum \<Rightarrow> jsnum \<Rightarrow> jsnum" where
  "js_min x y = (if x = NaN \<or> y = NaN then NaN else if js_lt y x then y else x)"

fun js_abs :: "jsnum \<Rightarrow> jsnum" where
  "js_abs (Num a) = Num \<bar>a\<bar>"
| "js_abs PosInf = PosInf"
| "js_abs NegInf = PosInf"
| "js_abs NaN = NaN"

text \<open>
  A property that is missing and an array element out of range are \<open>undefined\<close>,
  modelled as \<open>None\<close>. \<open>x || d\<close> yields \<open>d\<close> when \<open>x\<close> is \<open>undefined\<close>, zero or
  \<open>NaN\<close>; \<open>undefined\<close> in arithmetic is \<open>NaN\<close>.
\<close>

fun js_truthy :: "jsnum \<Rightarrow> bool" where
  "js_truthy (Num a) = (a \<noteq> 0)"
| "js_truthy PosInf = True"
| "js_truthy NegInf = True"
| "js_truthy NaN = False"

fun js_or :: "jsnum option \<Rightarrow> jsnum \<Rightarrow> jsnum" where
  "js_or None d = d"
| "js_or (Some v) d = (if js_truthy v then v else d)"

fun to_num :: "jsnum option \<Rightarrow> jsnum" where
  "to_num None = NaN"
| "to_num (Some v) = v"

definition arr_get :: "'a list \<Rightarrow> int \<Rightarrow> 'a option" where
  "arr_get xs i = (if 0 \<le> i \<and> i < int (length xs) then Some (xs ! nat i) else None)"

section \<open>The DCF engine\<close>

text \<open>
  The engine as its constructor leaves it (the sensitivity grid and the Monte Carlo
  simulation assign the two rates directly); the horizon \<open>projectionYears\<close> is an
  integer. The snapshot's properties may be missing; the five assumption arrays are
  arrays.
\<close>

record DCFModel =
  discountRate :: jsnum
  terminalGrowthRate :: jsnum
  projectionYears :: int
  taxRate :: jsnum

record FinancialData =
  fd_revenue :: "jsnum option"
  fd_sharesOutstanding :: "jsnum option"
  fd_currentPrice :: "jsnum option"

record Projections =
  pj_revenueGrowth :: "jsnum list"
  pj_ebitdaMargin :: "jsnum list"
  pj_depreciation :: "jsnum list"
  pj_capex :: "jsnum list"
  pj_workingCapitalChange :: "jsnum list"

record YearRecord =
  yr_year :: int
  yr_revenue :: jsnum
  yr_ebitda :: jsnum
  yr_ebit :: jsnum
  yr_nopat :: jsnum
  yr_freeCashFlow :: jsnum
  yr_presentValue :: jsnum

record DCFResult =
  projectedCashFlows :: "YearRecord list"
  terminalValue :: jsnum
  presentValue :: jsnum
  sharesOutstanding :: jsnum
  intrinsicValue :: jsnum
  currentPrice :: jsnum
  upside :: jsnum
  assumptions :: DCFModel

datatype js_error = TypeError | RangeError

datatype dcf_error = DCFCalculationFailed js_error

text \<open>The body of the projection loop of \<open>calculateDCF\<close> for one year.\<close>

definition dcf_year :: "DCFModel \<Rightarrow> Projections \<Rightarrow> int \<Rightarrow> jsnum \<Rightarrow> YearRecord" where
  "dcf_year m pj year lastRevenue =
    (let revenueGrowth = js_or (arr_get (pj_revenueGrowth pj) (year - 1)) (Num 0);
         revenue = js_mul lastRevenue (js_add (Num 1) revenueGrowth);
         ebitda = js_mul revenue (js_or (arr_get (pj_ebitdaMargin pj) (year - 1)) (Num (15 / 100)));
         ebit = js_sub ebitda
                  (js_or (arr_get (pj_depreciation pj) (year - 1)) (js_mul revenue (Num (3 / 100))));
         tax = js_mul ebit (taxRate m);
         nopat = js_sub ebit tax;
         capex = js_or (arr_get (pj_capex pj) (year - 1)) (js_mul revenue (Num (4 / 100)));
         workingCapitalChange = js_or (arr_get (pj_workingCapitalChange pj) (year - 1)) (Num 0);
         freeCashFlow =
           js_sub (js_sub (js_add nopat
               (js_or (arr_get (pj_depreciation pj) (year - 1)) (js_mul revenue (Num (3 / 100)))))
             capex) workingCapitalChange;
         presentValue = js_div freeCashFlow (js_pow (js_add (Num 1) (discountRate m)) (nat year))
     in \<lparr>yr_year = year, yr_revenue = revenue, yr_ebitda = ebitda, yr_ebit = ebit,
         yr_nopat = nopat, yr_freeCashFlow = freeCashFlow, yr_presentValue = presentValue\<rparr>)"

text \<open>
  The loop \<open>for (year = 1; year <= projectionYears; year++)\<close> with its state:
  \<open>lastRevenue\<close>, \<open>totalPV\<close> and the records pushed so far.
\<close>

function dcf_loop ::
  "DCFModel \<Rightarrow> Projections \<Rightarrow> int \<Rightarrow> jsnum \<Rightarrow> jsnum \<Rightarrow> YearRecord list
     \<Rightarrow> jsnum \<times> YearRecord list" where
  "dcf_loop m pj year lastRevenue totalPV recs =
    (if year \<le> projectionYears m
     then (let r = dcf_year m pj year lastRevenue
           in dcf_loop m pj (year + 1) (yr_revenue r) (js_add totalPV (yr_presentValue r))
                (recs @ [r]))
     else (totalPV, recs))"
  by pat_completeness auto
termination
  by (relation "measure (\<lambda>(m, pj, year, lastRevenue, totalPV, recs).
        nat (projectionYears m + 1 - year))") auto

declare dcf_loop.simps [simp del]

text \<open>
  \<open>calculateDCF\<close>. Reading \<open>freeCashFlow\<close> of \<open>projectedCashFlows[projectionYears - 1]\<close>
  throws a TypeError when that element is \<open>undefined\<close>; the \<open>catch\<close> rethrows it as
  "DCF calculation failed".
\<close>

definition calculateDCF :: "DCFModel \<Rightarrow> FinancialData \<Rightarrow> Projections \<Rightarrow> dcf_error + DCFResult" where
  "calculateDCF m fd pj =
    (let shares = js_or (fd_sharesOutstanding fd) (Num 0);
         price = js_or (fd_currentPrice fd) (Num 0);
         lastRevenue = js_or (fd_revenue fd) (Num 0);
         (totalPV, recs) = dcf_loop m pj 1 lastRevenue (Num 0) []
     in case arr_get recs (projectionYears m - 1) of
          None \<Rightarrow> Inl (DCFCalculationFailed TypeError)
        | Some lastRec \<Rightarrow>
           (let terminalCashFlow =
                  js_mul (yr_freeCashFlow lastRec) (js_add (Num 1) (terminalGrowthRate m));
                terminalValue =
                  js_div terminalCashFlow (js_sub (discountRate m) (terminalGrowthRate m));
                terminalPV =
                  js_div terminalValue
                    (js_pow (js_add (Num 1) (discountRate m)) (nat (projectionYears m)));
                pv = js_add totalPV terminalPV;
                intrinsic = (if js_gt shares (Num 0) then js_div pv shares else Num 0);
                ups = (if js_gt shares (Num 0)
                       then (if js_gt price (Num 0)
                             then js_div (js_sub intrinsic price) price else Num 0)
                       else Num 0)
            in Inr \<lparr>projectedCashFlows = recs, terminalValue = terminalValue,
                    presentValue = pv, sharesOutstanding = shares,
                    intrinsicValue = intrinsic, currentPrice = price, upside = ups,
                    assumptions = m\<rparr>))"

text \<open>
  The records the loop has pushed after \<open>n\<close> years, as a function of \<open>n\<close>: the
  loop invariant of \<open>dcf_loop\<close>.
\<close>

fun dcf_records :: "DCFModel \<Rightarrow> Projections \<Rightarrow> jsnum \<Rightarrow> nat \<Rightarrow> YearRecord list" where
  "dcf_records m pj r0 0 = []"
| "dcf_records m pj r0 (Suc n) =
     dcf_records m pj r0 n @
       [dcf_year m pj (int n + 1)
          (if n = 0 then r0 else yr_revenue (last (dcf_records m pj r0 n)))]"

text \<open>The result \<open>calculateDCF\<close> returns when it returns one.\<close>

definition dcf_result :: "DCFModel \<Rightarrow> FinancialData \<Rightarrow> Projections \<Rightarrow> DCFResult" where
  "dcf_result m fd pj =
    (let shares = js_or (fd_sharesOutstanding fd) (Num 0);
         price = js_or (fd_currentPrice fd) (Num 0);
         recs = dcf_records m pj (js_or (fd_revenue fd) (Num 0)) (nat (projectionYears m));
         tv = js_div (js_mul (yr_freeCashFlow (last recs)) (js_add (Num 1) (terminalGrowthRate m)))
                (js_sub (discountRate m) (terminalGrowthRate m));
         pv = js_add (foldl js_add (Num 0) (map yr_presentValue recs))
                (js_div tv (js_pow (js_add (Num 1) (discountRate m)) (nat (projectionYears m))));
         intrinsic = (if js_gt shares (Num 0) then js_div pv shares else Num 0)
     in \<lparr>projectedCashFlows = recs, terminalValue = tv, presentValue = pv,
         sharesOutstanding = shares, intrinsicValue = intrinsic, currentPrice = price,
         upside = (if js_gt shares (Num 0) \<and> js_gt price (Num 0)
                   then js_div (js_sub intrinsic price) price else Num 0),
         assumptions = m\<rparr>)"

subsection \<open>The reference recurrences of the DCF point estimate\<close>

text \<open>
  The recurrences as the specification words them, over the reals and over the
  per-year sequences as the caller supplies them (year \<open>y\<close> reads entry \<open>y - 1\<close>):
  revenue\<open>\<^sub>y\<close> = revenue\<open>\<^sub>y\<^sub>-\<^sub>1\<close> (1 + growth\<open>\<^sub>y\<close>), ebitda = revenue margin, ebit = ebitda - depreciation,
  nopat = ebit (1 - taxRate), freeCashFlow = nopat + depreciation - capex - \<Delta>WC,
  presentValue = freeCashFlow / (1 + discountRate)\<open>\<^sup>y\<close>.
\<close>

record SpecInputs =
  s_revenue :: real
  s_growth :: "real list"
  s_margin :: "real list"
  s_depreciation :: "real list"
  s_capex :: "real list"
  s_wcChange :: "real list"
  s_taxRate :: real
  s_discountRate :: real
  s_terminalGrowthRate :: real

fun spec_revenue :: "SpecInputs \<Rightarrow> nat \<Rightarrow> real" where
  "spec_revenue si 0 = s_revenue si"
| "spec_revenue si (Suc y) = spec_revenue si y * (1 + s_growth si ! y)"

definition spec_ebitda :: "SpecInputs \<Rightarrow> nat \<Rightarrow> real" where
  "spec_ebitda si y = spec_revenue si y * s_margin si ! (y - 1)"

definition spec_ebit :: "SpecInputs \<Rightarrow> nat \<Rightarrow> real" where
  "spec_ebit si y = spec_ebitda si y - s_depreciation si ! (y - 1)"

definition spec_nopat :: "SpecInputs \<Rightarrow> nat \<Rightarrow> real" where
  "spec_nopat si y = spec_ebit si y * (1 - s_taxRate si)"

definition spec_freeCashFlow :: "SpecInputs \<Rightarrow> nat \<Rightarrow> real" where
  "spec_freeCashFlow si y =
     spec_nopat si y + s_depreciation si ! (y - 1) - s_capex si ! (y - 1) - s_wcChange si ! (y - 1)"

definition spec_presentValue :: "SpecInputs \<Rightarrow> nat \<Rightarrow> real" where
  "spec_presentValue si y = spec_freeCashFlow si y / (1 + s_discountRate si) ^ y"

definition spec_terminalValue :: "SpecInputs \<Rightarrow> nat \<Rightarrow> real" where
  "spec_terminalValue si n =
     spec_freeCashFlow si n * (1 + s_terminalGrowthRate si)
       / (s_discountRate si - s_terminalGrowthRate si)"

definition spec_enterpriseValue :: "SpecInputs \<Rightarrow> nat \<Rightarrow> real" where
  "spec_enterpriseValue si n =
     sum_list (map (spec_presentValue si) [1..<Suc n])
       + spec_terminalValue si n / (1 + s_discountRate si) ^ n"

definition spec_record :: "SpecInputs \<Rightarrow> nat \<Rightarrow> YearRecord" where
  "spec_record si y =
     \<lparr>yr_year = int y, yr_revenue = Num (spec_revenue si y), yr_ebitda = Num (spec_ebitda si y),
      yr_ebit = Num (spec_ebit si y), yr_nopat = Num (spec_nopat si y),
      yr_freeCashFlow = Num (spec_freeCashFlow si y),
      yr_presentValue = Num (spec_presentValue si y)\<rparr>"

text \<open>The engine configuration, snapshot and assumption arrays that carry these inputs.\<close>

definition spec_model :: "SpecInputs \<Rightarrow> nat \<Rightarrow> DCFModel" where
  "spec_model si n =
     \<lparr>discountRate = Num (s_discountRate si), terminalGrowthRate = Num (s_terminalGrowthRate si),
      projectionYears = int n, taxRate = Num (s_taxRate si)\<rparr>"

definition spec_projections :: "SpecInputs \<Rightarrow> Projections" where
  "spec_projections si =
     \<lparr>pj_revenueGrowth = map Num (s_growth si), pj_ebitdaMargin = map Num (s_margin si),
      pj_depreciation = map Num (s_depreciation si), pj_capex = map Num (s_capex si),
      pj_workingCapitalChange = map Num (s_wcChange si)\<rparr>"

subsection \<open>Example inputs\<close>

text \<open>
  A one-year horizon at a discount rate of 10% and a terminal growth rate of 2.5%,
  with a first-year free cash flow of 100, and assumption arrays whose margin,
  depreciation and capex entries are zero.
\<close>

definition ex_inputs :: SpecInputs where
  "ex_inputs =
     \<lparr>s_revenue = 1000, s_growth = [0], s_margin = [2 / 10], s_depreciation = [40],
      s_capex = [50], s_wcChange = [10], s_taxRate = 25 / 100, s_discountRate = 10 / 100,
      s_terminalGrowthRate = 25 / 1000\<rparr>"

definition ex_model :: DCFModel where
  "ex_model =
     \<lparr>discountRate = Num (10 / 100), terminalGrowthRate = Num (25 / 1000), projectionYears = 1,
      taxRate = Num (25 / 100)\<rparr>"

definition ex_snapshot :: FinancialData where
  "ex_snapshot =
     \<lparr>fd_revenue = Some (Num 1000), fd_sharesOutstanding = Some (Num 100),
      fd_currentPrice = Some (Num 150)\<rparr>"

definition ex_zero_projections :: Projections where
  "ex_zero_projections =
     \<lparr>pj_revenueGrowth = [Num (5 / 100)], pj_ebitdaMargin = [Num 0], pj_depreciation = [Num 0],
      pj_capex = [Num 0], pj_workingCapitalChange = [Num 0]\<rparr>"


subsection \<open>Sensitivity grid of the DCF engine\<close>

record SensitivityRanges =
  sr_discountRates :: "jsnum list option"
  sr_terminalGrowthRates :: "jsnum list option"

record SensitivityRow =
  row_discountRate :: jsnum
  row_terminalGrowthRate :: jsnum
  row_intrinsicValue :: jsnum
  row_upside :: jsnum

text \<open>
  The two nested \<open>for\<close> loops of \<open>sensitivityAnalysis\<close> over the cells in
  discount-rate-major order. The engine's two rates are overwritten before the call of
  \<open>calculateDCF\<close> and restored after it; the call is not inside a \<open>try\<close>, so an
  exception leaves the loops (and the overwritten rates) as they are. The second
  component is the engine after the call.
\<close>

fun dcf_sensitivity_loop ::
  "DCFModel \<Rightarrow> FinancialData \<Rightarrow> Projections \<Rightarrow> (jsnum \<times> jsnum) list \<Rightarrow> SensitivityRow list
     \<Rightarrow> (dcf_error + SensitivityRow list) \<times> DCFModel" where
  "dcf_sensitivity_loop m fd pj [] results = (Inr results, m)"
| "dcf_sensitivity_loop m fd pj ((d, g) # cells) results =
    (let originalDiscount = discountRate m;
         originalTerminal = terminalGrowthRate m;
         m1 = m\<lparr>discountRate := d, terminalGrowthRate := g\<rparr>
     in case calculateDCF m1 fd pj of
          Inl e \<Rightarrow> (Inl e, m1)
        | Inr dcfResult \<Rightarrow>
            dcf_sensitivity_loop
              (m1\<lparr>discountRate := originalDiscount, terminalGrowthRate := originalTerminal\<rparr>)
              fd pj cells
              (results @ [\<lparr>row_discountRate = d, row_terminalGrowthRate = g,
                            row_intrinsicValue = intrinsicValue dcfResult,
                            row_upside = upside dcfResult\<rparr>]))"

definition dcf_sensitivityAnalysis ::
  "DCFModel \<Rightarrow> FinancialData \<Rightarrow> Projections \<Rightarrow> SensitivityRanges
     \<Rightarrow> (dcf_error + SensitivityRow list) \<times> DCFModel" where
  "dcf_sensitivityAnalysis m fd pj sensitivityRanges =
    (let discountRates =
           (case sr_discountRates sensitivityRanges of
              Some ds \<Rightarrow> ds
            | None \<Rightarrow> [Num (8 / 100), Num (9 / 100), Num (10 / 100), Num (11 / 100), Num (12 / 100)]);
         terminalGrowthRates =
           (case sr_terminalGrowthRates sensitivityRanges of
              Some gs \<Rightarrow> gs
            | None \<Rightarrow> [Num (15 / 1000), Num (20 / 1000), Num (25 / 1000), Num (30 / 1000),
                       Num (35 / 1000)])
     in dcf_sensitivity_loop m fd pj (List.product discountRates terminalGrowthRates) [])"

subsection \<open>Monte Carlo simulation of the DCF engine\<close>

text \<open>
  \<open>Math.random()\<close> is made explicit: the successive draws are a sequence
  \<open>draws 0, draws 1, \<dots>\<close> of reals, and every function that draws takes the position of
  the next draw and returns the position after its last one.
\<close>

type_synonym rng = "nat \<Rightarrow> real"

fun js_log :: "jsnum \<Rightarrow> jsnum" where
  "js_log (Num a) = (if 0 < a then Num (ln a) else if a = 0 then NegInf else NaN)"
| "js_log PosInf = PosInf"
| "js_log NegInf = NaN"
| "js_log NaN = NaN"

fun js_sqrt :: "jsnum \<Rightarrow> jsnum" where
  "js_sqrt (Num a) = (if 0 \<le> a then Num (sqrt a) else NaN)"
| "js_sqrt PosInf = PosInf"
| "js_sqrt NegInf = NaN"
| "js_sqrt NaN = NaN"

fun js_cos :: "jsnum \<Rightarrow> jsnum" where
  "js_cos (Num a) = Num (cos a)"
| "js_cos PosInf = NaN"
| "js_cos NegInf = NaN"
| "js_cos NaN = NaN"

text \<open>The Box-Muller value \<open>z0\<close> of \<open>normalRandom\<close> from its two draws.\<close>

definition box_muller :: "real \<Rightarrow> real \<Rightarrow> jsnum" where
  "box_muller u1 u2 =
     js_mul (js_sqrt (js_mul (Num (- 2)) (js_log (Num u1))))
            (js_cos (js_mul (js_mul (Num 2) (Num pi)) (Num u2)))"

definition normalRandom :: "rng \<Rightarrow> nat \<Rightarrow> jsnum \<Rightarrow> jsnum \<Rightarrow> jsnum \<times> nat" where
  "normalRandom draws pos mean std =
    (let u1 = draws pos;
         u2 = draws (pos + 1);
         z0 = box_muller u1 u2
     in (js_add mean (js_mul z0 std), pos + 2))"

text \<open>
  \<open>generateRandomProjections\<close>: the loop \<open>for (year = 0; year < projectionYears; year++)\<close>
  pushes one entry on each of five arrays, ten draws a year.
\<close>

definition random_year :: "Projections \<Rightarrow> rng \<Rightarrow> nat \<Rightarrow> int \<Rightarrow> Projections \<Rightarrow> Projections \<times> nat" where
  "random_year pj draws pos year rp =
    (let (g, pos1) = normalRandom draws pos
                       (js_or (arr_get (pj_revenueGrowth pj) year) (Num (5 / 100)))
                       (Num (2 / 100));
         (e, pos2) = normalRandom draws pos1
                       (js_or (arr_get (pj_ebitdaMargin pj) year) (Num (15 / 100)))
                       (Num (3 / 100));
         (d, pos3) = normalRandom draws pos2
                       (js_or (arr_get (pj_depreciation pj) year) (Num 0)) (Num (1 / 100));
         (c, pos4) = normalRandom draws pos3
                       (js_or (arr_get (pj_capex pj) year) (Num 0)) (Num (1 / 100));
         (w, pos5) = normalRandom draws pos4
                       (js_or (arr_get (pj_workingCapitalChange pj) year) (Num 0))
                       (Num (5 / 1000))
     in (\<lparr>pj_revenueGrowth = pj_revenueGrowth rp @ [g],
          pj_ebitdaMargin = pj_ebitdaMargin rp @ [e],
          pj_depreciation = pj_depreciation rp @ [js_abs d],
          pj_capex = pj_capex rp @ [js_abs c],
          pj_workingCapitalChange = pj_workingCapitalChange rp @ [w]\<rparr>, pos5))"

function random_projections_loop ::
  "DCFModel \<Rightarrow> Projections \<Rightarrow> rng \<Rightarrow> nat \<Rightarrow> int \<Rightarrow> Projections \<Rightarrow> Projections \<times> nat" where
  "random_projections_loop m pj draws pos year rp =
    (if year < projectionYears m
     then (let (rp1, pos1) = random_year pj draws pos year rp
           in random_projections_loop m pj draws pos1 (year + 1) rp1)
     else (rp, pos))"
  by pat_completeness auto
termination
  by (relation "measure (\<lambda>(m, pj, draws, pos, year, rp).
        nat (projectionYears m - year))") auto

declare random_projections_loop.simps [simp del]

definition generateRandomProjections ::
  "DCFModel \<Rightarrow> Projections \<Rightarrow> rng \<Rightarrow> nat \<Rightarrow> Projections \<times> nat" where
  "generateRandomProjections m pj draws pos =
     random_projections_loop m pj draws pos 0
       \<lparr>pj_revenueGrowth = [], pj_ebitdaMargin = [], pj_depreciation = [], pj_capex = [],
        pj_workingCapitalChange = []\<rparr>"

record DCFSample =
  smp_intrinsicValue :: jsnum
  smp_upside :: jsnum
  smp_presentValue :: jsnum

text \<open>
  The engine with the two rates one iteration of \<open>monteCarloDCF\<close> computes with: one
  draw each, \<open>this.discountRate + (Math.random() - 0.5) * 0.04\<close> under
  \<open>Math.max(0.05, x)\<close> and \<open>this.terminalGrowthRate + (Math.random() - 0.5) * 0.02\<close>
  under \<open>Math.max(0, Math.min(0.05, x))\<close>.
\<close>

definition mc_model :: "DCFModel \<Rightarrow> rng \<Rightarrow> nat \<Rightarrow> DCFModel \<times> nat" where
  "mc_model m draws pos =
    (let randomDiscountRate =
           js_add (discountRate m)
             (js_mul (js_sub (Num (draws pos)) (Num (5 / 10))) (Num (4 / 100)));
         randomTerminalGrowth =
           js_add (terminalGrowthRate m)
             (js_mul (js_sub (Num (draws (pos + 1))) (Num (5 / 10))) (Num (2 / 100)))
     in (m\<lparr>discountRate := js_max (Num (5 / 100)) randomDiscountRate,
           terminalGrowthRate := js_max (Num 0) (js_min (Num (5 / 100)) randomTerminalGrowth)\<rparr>,
         pos + 2))"

text \<open>
  One iteration: the sample, if the point estimate did not throw, and the position of
  the next draw. The rates are restored after the \<open>try\<close> on both paths, so the engine
  is unchanged.
\<close>

definition mc_iteration ::
  "DCFModel \<Rightarrow> FinancialData \<Rightarrow> Projections \<Rightarrow> rng \<Rightarrow> nat \<Rightarrow> DCFSample option \<times> nat" where
  "mc_iteration m fd pj draws pos =
    (let (randomProjections, pos1) = generateRandomProjections m pj draws pos;
         (m1, pos2) = mc_model m draws pos1
     in (case calculateDCF m1 fd randomProjections of
           Inr dcfResult \<Rightarrow>
             Some \<lparr>smp_intrinsicValue = intrinsicValue dcfResult, smp_upside = upside dcfResult,
                   smp_presentValue = presentValue dcfResult\<rparr>
         | Inl e \<Rightarrow> None,
         pos2))"

fun mc_loop ::
  "DCFModel \<Rightarrow> FinancialData \<Rightarrow> Projections \<Rightarrow> rng \<Rightarrow> nat \<Rightarrow> nat \<Rightarrow> DCFSample list
     \<Rightarrow> DCFSample list \<times> nat" where
  "mc_loop m fd pj draws pos 0 results = (results, pos)"
| "mc_loop m fd pj draws pos (Suc k) results =
    (case mc_iteration m fd pj draws pos of
       (Some s, pos1) \<Rightarrow> mc_loop m fd pj draws pos1 k (results @ [s])
     | (None, pos1) \<Rightarrow> mc_loop m fd pj draws pos1 k results)"

text \<open>
  What \<open>monteCarloDCF\<close> returns, up to the summary statistics: these are computed by a
  statistics library from the two arrays \<open>intrinsicValues\<close> and \<open>upsides\<close>, which are
  kept here in their place (what the library does with an empty array is outside the
  model).
\<close>

record DCFMonteCarlo =
  mc_simulations :: nat
  mc_intrinsicValues :: "jsnum list"
  mc_upsides :: "jsnum list"
  mc_probabilityOfPositiveUpside :: jsnum
  mc_results :: "DCFSample list"

definition monteCarloDCF ::
  "DCFModel \<Rightarrow> FinancialData \<Rightarrow> Projections \<Rightarrow> nat \<Rightarrow> rng \<Rightarrow> DCFMonteCarlo" where
  "monteCarloDCF m fd pj simulations draws =
    (let results = fst (mc_loop m fd pj draws 0 simulations []);
         intrinsicValues = filter (\<lambda>v. js_gt v (Num 0)) (map smp_intrinsicValue results);
         upsides = filter (\<lambda>v. v \<noteq> NaN) (map smp_upside results)
     in \<lparr>mc_simulations = length results,
         mc_intrinsicValues = intrinsicValues,
         mc_upsides = upsides,
         mc_probabilityOfPositiveUpside =
           js_div (Num (real (length (filter (\<lambda>u. js_gt u (Num 0)) upsides))))
                  (Num (real (length upsides))),
         mc_results = take 100 results\<rparr>)"

text \<open>
  The rates the specification describes for one iteration, for comparison: the base
  rate plus a normal sample of mean 0 by the Box-Muller transform of two draws.
\<close>

definition spec_mc_discountRate :: "jsnum \<Rightarrow> real \<Rightarrow> real \<Rightarrow> jsnum" where
  "spec_mc_discountRate base u1 u2 =
     js_max (Num (5 / 100)) (js_add base (js_add (Num 0) (js_mul (box_muller u1 u2) (Num (4 / 100)))))"

definition spec_mc_terminalGrowthRate :: "jsnum \<Rightarrow> real \<Rightarrow> real \<Rightarrow> jsnum" where
  "spec_mc_terminalGrowthRate base u1 u2 =
     js_max (Num 0) (js_min (Num (5 / 100))
       (js_add base (js_add (Num 0) (js_mul (box_muller u1 u2) (Num (2 / 100))))))"

section \<open>The LBO engine\<close>

text \<open>
  The engine as its constructor leaves it; the hold period is an integer. The result
  leaves out the field \<open>sensitivities\<close>, which is always the empty object.
\<close>

record LBOModel =
  targetIRR :: jsnum
  holdPeriod :: int
  maxDebtMultiple :: jsnum
  minEquityContribution :: jsnum

record InterestRates =
  ir_weighted :: "jsnum option"
  ir_termLoanA :: "jsnum option"
  ir_termLoanB :: "jsnum option"
  ir_subordinated :: "jsnum option"

text \<open>
  The deal parameters \<open>calculateLBO\<close> reads (\<open>debtMultiple\<close> is destructured and never
  used). The four per-year arrays are arrays; every other property may be missing.
\<close>

record DealParams =
  dp_enterpriseValue :: "jsnum option"
  dp_ebitda :: "jsnum option"
  dp_revolver :: "jsnum option"
  dp_termLoanA :: "jsnum option"
  dp_termLoanB :: "jsnum option"
  dp_subordinatedDebt :: "jsnum option"
  dp_exitMultiple :: "jsnum option"
  dp_revenueGrowth :: "jsnum list"
  dp_ebitdaMargin :: "jsnum list"
  dp_capexAsPercentOfRevenue :: "jsnum list"
  dp_workingCapitalChange :: "jsnum list"
  dp_fees :: "jsnum option"
  dp_baseRevenue :: "jsnum option"
  dp_interestRates :: "InterestRates option"
  dp_taxRate :: "jsnum option"
  dp_debtPaydownRate :: "jsnum option"

record YearCreditMetrics =
  cm_debtToEbitda :: jsnum
  cm_ebitdaToInterest :: jsnum
  cm_fcfToDebt :: jsnum

record YearProjection =
  p_year :: int
  p_revenue :: jsnum
  p_ebitda :: jsnum
  p_ebit :: jsnum
  p_netIncome :: jsnum
  p_freeCashFlow :: jsnum
  p_debtBalance :: jsnum
  p_debtPaydown :: jsnum
  p_cashToSponsor :: jsnum
  p_creditMetrics :: YearCreditMetrics

record Sources =
  so_revolver :: jsnum
  so_termLoanA :: jsnum
  so_termLoanB :: jsnum
  so_subordinatedDebt :: jsnum
  so_totalDebt :: jsnum
  so_equityContribution :: jsnum
  so_totalSources :: jsnum

record Uses =
  us_enterpriseValue :: "jsnum option"
  us_fees :: jsnum
  us_totalUses :: jsnum

record Returns =
  rt_entryEquity :: jsnum
  rt_exitEquityValue :: jsnum
  rt_totalCashDistributed :: jsnum
  rt_totalCashReturned :: jsnum
  rt_totalMultiple :: jsnum
  rt_irr :: jsnum
  rt_exitMultiple :: "jsnum option"
  rt_exitEbitda :: jsnum

record CreditMetrics =
  entryDebtToEbitda :: jsnum
  maxDebtToEbitda :: jsnum
  minEbitdaToInterest :: jsnum
  debtPaydownOverHoldPeriod :: jsnum
  debtPaydownPercent :: jsnum

record KeyMetrics =
  meetsTaxgetIRR :: bool
  leverageWithinLimits :: bool
  adequateEquityBuffer :: bool
  riskAdjustedReturn :: jsnum

record SourceAndUses =
  sources :: Sources
  uses :: Uses

record LBOResult =
  sourceAndUses :: SourceAndUses
  returns :: Returns
  creditMetrics :: CreditMetrics
  projections :: "YearProjection list"
  keyMetrics :: KeyMetrics

datatype irr_error = DerivativeTooSmall | MaximumIterationsReached

datatype lbo_cause = IRRFailed irr_error | Thrown js_error

datatype lbo_error = LBOCalculationFailed lbo_cause

subsection \<open>The root finder\<close>

definition maxIterations :: nat where
  "maxIterations = 1000"

definition tolerance :: jsnum where
  "tolerance = Num (1 / 1000000)"

text \<open>\<open>allCashFlows\<close>: the negated investment, the cash flows, the terminal value added
  to the last element.\<close>

definition allCashFlows :: "jsnum \<Rightarrow> jsnum list \<Rightarrow> jsnum \<Rightarrow> jsnum list" where
  "allCashFlows initialInvestment cashFlows terminalCashFlow =
    (let cfs = js_neg initialInvestment # cashFlows
     in cfs[length cfs - 1 := js_add (cfs ! (length cfs - 1)) terminalCashFlow])"

text \<open>The inner \<open>for\<close> loop: \<open>npv\<close> and \<open>npvDerivative\<close> at a rate.\<close>

definition npv_step :: "jsnum list \<Rightarrow> jsnum \<Rightarrow> jsnum \<times> jsnum \<Rightarrow> nat \<Rightarrow> jsnum \<times> jsnum" where
  "npv_step cfs rate acc i =
    (let denominator = js_pow (js_add (Num 1) rate) i
     in (js_add (fst acc) (js_div (cfs ! i) denominator),
         js_sub (snd acc)
           (js_div (js_mul (Num (real i)) (cfs ! i)) (js_pow (js_add (Num 1) rate) (i + 1)))))"

definition npv_and_derivative :: "jsnum list \<Rightarrow> jsnum \<Rightarrow> jsnum \<times> jsnum" where
  "npv_and_derivative cfs rate = foldl (npv_step cfs rate) (Num 0, Num 0) [0..<length cfs]"

text \<open>
  The \<open>while (iteration < maxIterations)\<close> loop. It is left by \<open>break\<close> or by its
  condition, with the rate and the iteration count, or by the \<open>throw\<close>.
\<close>

function irr_loop :: "jsnum list \<Rightarrow> jsnum \<Rightarrow> nat \<Rightarrow> irr_error + jsnum \<times> nat" where
  "irr_loop cfs rate iteration =
    (if iteration < maxIterations
     then (let (npv, npvDerivative) = npv_and_derivative cfs rate
           in if js_lt (js_abs npv) tolerance then Inr (rate, iteration)
              else if js_lt (js_abs npvDerivative) tolerance then Inl DerivativeTooSmall
              else irr_loop cfs (js_sub rate (js_div npv npvDerivative)) (iteration + 1))
     else Inr (rate, iteration))"
  by pat_completeness auto
termination
  by (relation "measure (\<lambda>(cfs, rate, iteration). maxIterations - iteration)") auto

declare irr_loop.simps [simp del]

definition calculateIRR :: "jsnum \<Rightarrow> jsnum list \<Rightarrow> jsnum \<Rightarrow> irr_error + jsnum" where
  "calculateIRR initialInvestment cashFlows terminalCashFlow =
    (case irr_loop (allCashFlows initialInvestment cashFlows terminalCashFlow) (Num (15 / 100)) 0 of
       Inl e \<Rightarrow> Inl e
     | Inr (rate, iteration) \<Rightarrow>
         if iteration \<ge> maxIterations then Inl MaximumIterationsReached else Inr rate)"


definition converged :: "jsnum list \<Rightarrow> jsnum \<Rightarrow> bool" where
  "converged cfs rate = js_lt (js_abs (fst (npv_and_derivative cfs rate))) tolerance"

definition flat_slope :: "jsnum list \<Rightarrow> jsnum \<Rightarrow> bool" where
  "flat_slope cfs rate = js_lt (js_abs (snd (npv_and_derivative cfs rate))) tolerance"

fun newton_rate :: "jsnum list \<Rightarrow> nat \<Rightarrow> jsnum" where
  "newton_rate cfs 0 = Num (15 / 100)"
| "newton_rate cfs (Suc k) =
     js_sub (newton_rate cfs k)
       (js_div (fst (npv_and_derivative cfs (newton_rate cfs k)))
               (snd (npv_and_derivative cfs (newton_rate cfs k))))"

text \<open>The loop stops at iteration \<open>k\<close>: on convergence, or on a flat slope.\<close>

definition stops_at :: "jsnum list \<Rightarrow> nat \<Rightarrow> bool" where
  "stops_at cfs k \<longleftrightarrow>
     converged cfs (newton_rate cfs k) \<or> flat_slope cfs (newton_rate cfs k)"

subsection \<open>The point estimate\<close>

definition calculateInterestExpense :: "jsnum \<Rightarrow> InterestRates \<Rightarrow> jsnum" where
  "calculateInterestExpense totalDebt interestRates =
    (let avgRate =
           js_or (ir_weighted interestRates)
             (js_or (Some (js_add (js_add (js_mul (to_num (ir_termLoanA interestRates)) (Num (3 / 10)))
                                          (js_mul (to_num (ir_termLoanB interestRates)) (Num (5 / 10))))
                                  (js_mul (to_num (ir_subordinated interestRates)) (Num (2 / 10)))))
                    (Num (8 / 100)))
     in js_mul totalDebt avgRate)"

definition no_rates :: InterestRates where
  "no_rates = \<lparr>ir_weighted = None, ir_termLoanA = None, ir_termLoanB = None,
               ir_subordinated = None\<rparr>"

definition lbo_totalDebt :: "DealParams \<Rightarrow> jsnum" where
  "lbo_totalDebt dp =
     js_add (js_add (js_add (js_or (dp_revolver dp) (Num 0)) (js_or (dp_termLoanA dp) (Num 0)))
                    (js_or (dp_termLoanB dp) (Num 0)))
            (js_or (dp_subordinatedDebt dp) (Num 0))"

definition lbo_equityContribution :: "DealParams \<Rightarrow> jsnum" where
  "lbo_equityContribution dp =
     js_add (js_sub (to_num (dp_enterpriseValue dp)) (lbo_totalDebt dp)) (js_or (dp_fees dp) (Num 0))"

text \<open>The year-0 revenue \<open>currentRevenue\<close>, which the loop never assigns again.\<close>

definition lbo_currentRevenue :: "DealParams \<Rightarrow> jsnum" where
  "lbo_currentRevenue dp =
     js_or (dp_baseRevenue dp)
       (js_div (to_num (dp_ebitda dp)) (js_or (arr_get (dp_ebitdaMargin dp) 0) (Num (2 / 10))))"

text \<open>\<open>a || b\<close> where \<open>b\<close> may itself be \<open>undefined\<close>.\<close>

fun js_or_undef :: "jsnum option \<Rightarrow> jsnum option \<Rightarrow> jsnum option" where
  "js_or_undef None b = b"
| "js_or_undef (Some v) b = (if js_truthy v then Some v else b)"

text \<open>The body of the projection loop of \<open>calculateLBO\<close> for one year.\<close>

definition lbo_year :: "DealParams \<Rightarrow> int \<Rightarrow> jsnum \<Rightarrow> YearProjection" where
  "lbo_year dp year currentDebt =
    (let currentRevenue = lbo_currentRevenue dp;
         revenue =
           (if year = 0 then currentRevenue
            else js_mul currentRevenue
                   (js_pow (js_add (Num 1) (to_num (arr_get (dp_revenueGrowth dp) (year - 1))))
                      (nat year)));
         ebitdaAmount =
           js_mul revenue
             (to_num (js_or_undef (arr_get (dp_ebitdaMargin dp) year) (arr_get (dp_ebitdaMargin dp) 0)));
         capex = js_mul revenue (js_or (arr_get (dp_capexAsPercentOfRevenue dp) year) (Num (3 / 100)));
         depreciation = capex;
         ebit = js_sub ebitdaAmount depreciation;
         interest = calculateInterestExpense currentDebt
                      (case dp_interestRates dp of Some rates \<Rightarrow> rates | None \<Rightarrow> no_rates);
         ebt = js_sub ebit interest;
         taxes = js_max (Num 0) (js_mul ebt (js_or (dp_taxRate dp) (Num (25 / 100))));
         netIncome = js_sub ebt taxes;
         freeCashFlow =
           js_sub (js_sub (js_add netIncome depreciation) capex)
                  (js_or (arr_get (dp_workingCapitalChange dp) year) (Num 0));
         debtPaydown =
           js_max (Num 0) (js_mul freeCashFlow (js_or (dp_debtPaydownRate dp) (Num (5 / 10))));
         cashToSponsor = js_sub freeCashFlow debtPaydown;
         newDebt = js_max (Num 0) (js_sub currentDebt debtPaydown)
     in \<lparr>p_year = year, p_revenue = revenue, p_ebitda = ebitdaAmount, p_ebit = ebit,
         p_netIncome = netIncome, p_freeCashFlow = freeCashFlow, p_debtBalance = newDebt,
         p_debtPaydown = debtPaydown, p_cashToSponsor = cashToSponsor,
         p_creditMetrics =
           \<lparr>cm_debtToEbitda = js_div newDebt ebitdaAmount,
            cm_ebitdaToInterest = js_div ebitdaAmount interest,
            cm_fcfToDebt = js_div freeCashFlow newDebt\<rparr>\<rparr>)"

text \<open>
  The loop \<open>for (year = 0; year <= holdPeriod; year++)\<close> with its state: \<open>currentDebt\<close>
  and the projections pushed so far.
\<close>

function lbo_loop ::
  "LBOModel \<Rightarrow> DealParams \<Rightarrow> int \<Rightarrow> jsnum \<Rightarrow> YearProjection list \<Rightarrow> YearProjection list" where
  "lbo_loop m dp year currentDebt projs =
    (if year \<le> holdPeriod m
     then (let p = lbo_year dp year currentDebt
           in lbo_loop m dp (year + 1) (p_debtBalance p) (projs @ [p]))
     else projs)"
  by pat_completeness auto
termination
  by (relation "measure (\<lambda>(m, dp, year, currentDebt, projs). nat (holdPeriod m + 1 - year))") auto

declare lbo_loop.simps [simp del]

text \<open>\<open>Math.max(...xs)\<close> and \<open>Math.min(...xs)\<close> of an array.\<close>

definition js_max_list :: "jsnum list \<Rightarrow> jsnum" where
  "js_max_list xs = foldl js_max NegInf xs"

definition js_min_list :: "jsnum list \<Rightarrow> jsnum" where
  "js_min_list xs = foldl js_min PosInf xs"

text \<open>
  \<open>calculateLBO\<close>. Reading \<open>ebitda\<close> of \<open>projections[holdPeriod]\<close> throws a TypeError when
  that element is \<open>undefined\<close>, and \<open>calculateIRR\<close> may throw; the \<open>catch\<close> rethrows
  either as "LBO calculation failed". No other statement of the body throws.
\<close>

definition calculateLBO :: "LBOModel \<Rightarrow> DealParams \<Rightarrow> lbo_error + LBOResult" where
  "calculateLBO m dp =
    (let totalDebt = lbo_totalDebt dp;
         equityContribution = lbo_equityContribution dp;
         projs = lbo_loop m dp 0 totalDebt []
     in case arr_get projs (holdPeriod m) of
          None \<Rightarrow> Inl (LBOCalculationFailed (Thrown TypeError))
        | Some exitYear \<Rightarrow>
           (let exitEbitda = p_ebitda exitYear;
                exitEnterpriseValue = js_mul exitEbitda (to_num (dp_exitMultiple dp));
                exitDebt = p_debtBalance exitYear;
                exitEquityValue = js_sub exitEnterpriseValue exitDebt;
                totalCashDistributed = foldl js_add (Num 0) (map p_cashToSponsor (drop 1 projs));
                totalCashReturned = js_add totalCashDistributed exitEquityValue;
                totalMultiple = js_div totalCashReturned equityContribution
            in case calculateIRR equityContribution (map p_cashToSponsor (drop 1 projs))
                      exitEquityValue of
                 Inl e \<Rightarrow> Inl (LBOCalculationFailed (IRRFailed e))
               | Inr irr \<Rightarrow>
                  (let maxLev = js_max_list (map (\<lambda>p. cm_debtToEbitda (p_creditMetrics p)) projs);
                       minCov = js_min_list (map (\<lambda>p. cm_ebitdaToInterest (p_creditMetrics p)) projs)
                   in Inr
                     \<lparr>sourceAndUses = \<lparr>sources =
                        \<lparr>so_revolver = js_or (dp_revolver dp) (Num 0),
                         so_termLoanA = js_or (dp_termLoanA dp) (Num 0),
                         so_termLoanB = js_or (dp_termLoanB dp) (Num 0),
                         so_subordinatedDebt = js_or (dp_subordinatedDebt dp) (Num 0),
                         so_totalDebt = totalDebt,
                         so_equityContribution = equityContribution,
                         so_totalSources = js_add totalDebt equityContribution\<rparr>,
                      uses =
                        \<lparr>us_enterpriseValue = dp_enterpriseValue dp,
                         us_fees = js_or (dp_fees dp) (Num 0),
                         us_totalUses =
                           js_add (to_num (dp_enterpriseValue dp)) (js_or (dp_fees dp) (Num 0))\<rparr>\<rparr>,
                      returns =
                        \<lparr>rt_entryEquity = equityContribution,
                         rt_exitEquityValue = exitEquityValue,
                         rt_totalCashDistributed = totalCashDistributed,
                         rt_totalCashReturned = totalCashReturned,
                         rt_totalMultiple = totalMultiple,
                         rt_irr = irr,
                         rt_exitMultiple = dp_exitMultiple dp,
                         rt_exitEbitda = exitEbitda\<rparr>,
                      creditMetrics =
                        \<lparr>entryDebtToEbitda = js_div totalDebt (to_num (dp_ebitda dp)),
                         maxDebtToEbitda = maxLev,
                         minEbitdaToInterest = minCov,
                         debtPaydownOverHoldPeriod = js_sub totalDebt exitDebt,
                         debtPaydownPercent = js_div (js_sub totalDebt exitDebt) totalDebt\<rparr>,
                      projections = projs,
                      keyMetrics =
                        \<lparr>meetsTaxgetIRR = js_ge irr (targetIRR m),
                         leverageWithinLimits = js_le maxLev (maxDebtMultiple m),
                         adequateEquityBuffer =
                           js_ge (js_div equityContribution (to_num (dp_enterpriseValue dp)))
                                 (minEquityContribution m),
                         riskAdjustedReturn = js_div irr (js_div maxLev (Num 6))\<rparr>\<rparr>)))"

text \<open>The projections after \<open>n\<close> years, as a function of \<open>n\<close>: the invariant of
  \<open>lbo_loop\<close>.\<close>

fun lbo_records :: "DealParams \<Rightarrow> nat \<Rightarrow> YearProjection list" where
  "lbo_records dp 0 = []"
| "lbo_records dp (Suc n) =
     lbo_records dp n @
       [lbo_year dp (int n)
          (if n = 0 then lbo_totalDebt dp else p_debtBalance (last (lbo_records dp n)))]"

text \<open>
  The projections, the sponsor's cash flows of the years after year 0 and the exit
  equity value of a run whose hold period is not negative.
\<close>

definition lbo_projections :: "LBOModel \<Rightarrow> DealParams \<Rightarrow> YearProjection list" where
  "lbo_projections m dp = lbo_records dp (nat (holdPeriod m + 1))"

definition lbo_cashFlows :: "LBOModel \<Rightarrow> DealParams \<Rightarrow> jsnum list" where
  "lbo_cashFlows m dp = map p_cashToSponsor (drop 1 (lbo_projections m dp))"

definition lbo_exitEquityValue :: "LBOModel \<Rightarrow> DealParams \<Rightarrow> jsnum" where
  "lbo_exitEquityValue m dp =
     js_sub (js_mul (p_ebitda (last (lbo_projections m dp))) (to_num (dp_exitMultiple dp)))
            (p_debtBalance (last (lbo_projections m dp)))"

text \<open>The result \<open>calculateLBO\<close> returns when the root finder returns \<open>irr\<close>.\<close>

definition lbo_result :: "LBOModel \<Rightarrow> DealParams \<Rightarrow> jsnum \<Rightarrow> LBOResult" where
  "lbo_result m dp irr =
    (let totalDebt = lbo_totalDebt dp;
         equityContribution = lbo_equityContribution dp;
         projs = lbo_projections m dp;
         exitDebt = p_debtBalance (last projs);
         exitEquityValue = lbo_exitEquityValue m dp;
         totalCashDistributed = foldl js_add (Num 0) (lbo_cashFlows m dp);
         totalCashReturned = js_add totalCashDistributed exitEquityValue;
         maxLev = js_max_list (map (\<lambda>p. cm_debtToEbitda (p_creditMetrics p)) projs);
         minCov = js_min_list (map (\<lambda>p. cm_ebitdaToInterest (p_creditMetrics p)) projs)
     in \<lparr>sourceAndUses = \<lparr>sources =
          \<lparr>so_revolver = js_or (dp_revolver dp) (Num 0),
           so_termLoanA = js_or (dp_termLoanA dp) (Num 0),
           so_termLoanB = js_or (dp_termLoanB dp) (Num 0),
           so_subordinatedDebt = js_or (dp_subordinatedDebt dp) (Num 0),
           so_totalDebt = totalDebt,
           so_equityContribution = equityContribution,
           so_totalSources = js_add totalDebt equityContribution\<rparr>,
        uses =
          \<lparr>us_enterpriseValue = dp_enterpriseValue dp,
           us_fees = js_or (dp_fees dp) (Num 0),
           us_totalUses = js_add (to_num (dp_enterpriseValue dp)) (js_or (dp_fees dp) (Num 0))\<rparr>\<rparr>,
        returns =
          \<lparr>rt_entryEquity = equityContribution,
           rt_exitEquityValue = exitEquityValue,
           rt_totalCashDistributed = totalCashDistributed,
           rt_totalCashReturned = totalCashReturned,
           rt_totalMultiple = js_div totalCashReturned equityContribution,
           rt_irr = irr,
           rt_exitMultiple = dp_exitMultiple dp,
           rt_exitEbitda = p_ebitda (last projs)\<rparr>,
        creditMetrics =
          \<lparr>entryDebtToEbitda = js_div totalDebt (to_num (dp_ebitda dp)),
           maxDebtToEbitda = maxLev,
           minEbitdaToInterest = minCov,
           debtPaydownOverHoldPeriod = js_sub totalDebt exitDebt,
           debtPaydownPercent = js_div (js_sub totalDebt exitDebt) totalDebt\<rparr>,
        projections = projs,
        keyMetrics =
          \<lparr>meetsTaxgetIRR = js_ge irr (targetIRR m),
           leverageWithinLimits = js_le maxLev (maxDebtMultiple m),
           adequateEquityBuffer =
             js_ge (js_div equityContribution (to_num (dp_enterpriseValue dp)))
                   (minEquityContribution m),
           riskAdjustedReturn = js_div irr (js_div maxLev (Num 6))\<rparr>\<rparr>)"

subsection \<open>Example deal\<close>

text \<open>
  A one-year hold of a company with revenue 1000 growing 10%, a 20% margin, a term loan
  of 100 at 10% and an exit at five times EBITDA: the sponsor invests 1000 and receives
  1150 after one year.
\<close>

definition ex_lbo_model :: LBOModel where
  "ex_lbo_model =
     \<lparr>targetIRR = Num (20 / 100), holdPeriod = 1, maxDebtMultiple = Num 6,
      minEquityContribution = Num (3 / 10)\<rparr>"

definition ex_deal :: DealParams where
  "ex_deal =
     \<lparr>dp_enterpriseValue = Some (Num 1100), dp_ebitda = Some (Num 200), dp_revolver = None,
      dp_termLoanA = None, dp_termLoanB = Some (Num 100), dp_subordinatedDebt = None,
      dp_exitMultiple = Some (Num 5), dp_revenueGrowth = [Num (1 / 10)],
      dp_ebitdaMargin = [Num (2 / 10)], dp_capexAsPercentOfRevenue = [],
      dp_workingCapitalChange = [Num 0, Num (149 / 4)], dp_fees = None,
      dp_baseRevenue = Some (Num 1000),
      dp_interestRates =
        Some \<lparr>ir_weighted = Some (Num (1 / 10)), ir_termLoanA = None, ir_termLoanB = None,
              ir_subordinated = None\<rparr>,
      dp_taxRate = None, dp_debtPaydownRate = None\<rparr>"

text \<open>
  A deal on a company without revenue or EBITDA (a supplied EBITDA of 0 and no base
  revenue), financed with a term loan of 100 at 10% and 100 of equity; a release of
  working capital of 240 in year 1 pays the loan down and returns 115 to the sponsor.
\<close>

definition zero_ebitda_deal :: DealParams where
  "zero_ebitda_deal =
     \<lparr>dp_enterpriseValue = Some (Num 200), dp_ebitda = Some (Num 0), dp_revolver = None,
      dp_termLoanA = None, dp_termLoanB = Some (Num 100), dp_subordinatedDebt = None,
      dp_exitMultiple = Some (Num 8), dp_revenueGrowth = [Num (5 / 100)],
      dp_ebitdaMargin = [Num (2 / 10)], dp_capexAsPercentOfRevenue = [],
      dp_workingCapitalChange = [Num 0, Num (- 240)], dp_fees = None, dp_baseRevenue = None,
      dp_interestRates =
        Some \<lparr>ir_weighted = Some (Num (1 / 10)), ir_termLoanA = None, ir_termLoanB = None,
              ir_subordinated = None\<rparr>,
      dp_taxRate = None, dp_debtPaydownRate = None\<rparr>"

text \<open>
  The example deal with an exit multiple of 0 and a working-capital change that leaves
  a last cash flow of 0: the stream is \<open>[-1000, 0]\<close>, whose derivative is 0.
\<close>

definition flat_deal :: DealParams where
  "flat_deal =
     ex_deal\<lparr>dp_exitMultiple := Some (Num 0),
             dp_workingCapitalChange := [Num 0, Num (389 / 4)]\<rparr>"

subsection \<open>Sensitivity grid of the LBO engine\<close>

record LBOSensitivityRanges =
  lsr_exitMultiples :: "jsnum list option"
  lsr_revenueGrowthRates :: "jsnum list option"

record LBOSensitivityRow =
  lrow_exitMultiple :: jsnum
  lrow_revenueGrowth :: jsnum
  lrow_irr :: jsnum
  lrow_totalMultiple :: jsnum
  lrow_maxLeverage :: jsnum

text \<open>
  The two nested \<open>for\<close> loops of the LBO \<open>sensitivityAnalysis\<close>. The parameters of a
  cell are built before the \<open>try\<close>: \<open>Array(holdPeriod)\<close> throws a RangeError for a
  negative length. The call of \<open>calculateLBO\<close> is inside the \<open>try\<close>, and a cell whose
  call throws is skipped.
\<close>

fun lbo_sensitivity_loop ::
  "LBOModel \<Rightarrow> DealParams \<Rightarrow> (jsnum \<times> jsnum) list \<Rightarrow> LBOSensitivityRow list
     \<Rightarrow> js_error + LBOSensitivityRow list" where
  "lbo_sensitivity_loop m dp [] results = Inr results"
| "lbo_sensitivity_loop m dp ((exitMultiple, revenueGrowth) # cells) results =
    (if holdPeriod m < 0 then Inl RangeError
     else (let modifiedParams =
                 dp\<lparr>dp_exitMultiple := Some exitMultiple,
                    dp_revenueGrowth := replicate (nat (holdPeriod m)) revenueGrowth\<rparr>
           in case calculateLBO m modifiedParams of
                Inr lboResult \<Rightarrow>
                  lbo_sensitivity_loop m dp cells
                    (results @ [\<lparr>lrow_exitMultiple = exitMultiple,
                                  lrow_revenueGrowth = revenueGrowth,
                                  lrow_irr = rt_irr (returns lboResult),
                                  lrow_totalMultiple = rt_totalMultiple (returns lboResult),
                                  lrow_maxLeverage = maxDebtToEbitda (creditMetrics lboResult)\<rparr>])
              | Inl e \<Rightarrow> lbo_sensitivity_loop m dp cells results))"

definition lbo_sensitivityAnalysis ::
  "LBOModel \<Rightarrow> DealParams \<Rightarrow> LBOSensitivityRanges \<Rightarrow> js_error + LBOSensitivityRow list" where
  "lbo_sensitivityAnalysis m dp sensitivityRanges =
    (let exitMultiples =
           (case lsr_exitMultiples sensitivityRanges of
              Some xs \<Rightarrow> xs
            | None \<Rightarrow> [Num 8, Num 9, Num 10, Num 11, Num 12]);
         revenueGrowthRates =
           (case lsr_revenueGrowthRates sensitivityRanges of
              Some gs \<Rightarrow> gs
            | None \<Rightarrow> [Num (3 / 100), Num (5 / 100), Num (7 / 100), Num (9 / 100),
                       Num (11 / 100)])
     in lbo_sensitivity_loop m dp (List.product exitMultiples revenueGrowthRates) [])"

section \<open>Properties of the DCF engine\<close>

subsection \<open>The projection loop\<close>

lemma length_dcf_records [simp]: "length (dcf_records m pj r0 n) = n"
  by (induction n) auto

lemma dcf_records_nth:
  "k < n \<Longrightarrow>
   dcf_records m pj r0 n ! k =
     dcf_year m pj (int k + 1) (if k = 0 then r0 else yr_revenue (dcf_records m pj r0 n ! (k - 1)))"
proof (induction n)
  case 0
  then show ?case by simp
next
  case (Suc n)
  show ?case
  proof (cases "k < n")
    case True
    then have "k - 1 < n" by simp
    with True Suc.IH show ?thesis by (simp add: nth_append)
  next
    case False
    with Suc.prems have k: "k = n" by simp
    show ?thesis
    proof (cases "n = 0")
      case True
      with k show ?thesis by simp
    next
      case False
      then have "dcf_records m pj r0 n \<noteq> []"
        by (metis length_dcf_records list.size(3))
      then have "last (dcf_records m pj r0 n) = dcf_records m pj r0 n ! (n - 1)"
        using last_conv_nth[of "dcf_records m pj r0 n"] by simp
      with k False show ?thesis by (simp add: nth_append)
    qed
  qed
qed

lemma dcf_loop_invariant:
  "1 \<le> year \<Longrightarrow> recs = dcf_records m pj r0 (nat (year - 1)) \<Longrightarrow>
   lr = (if year = 1 then r0 else yr_revenue (last recs)) \<Longrightarrow>
   tot = foldl js_add (Num 0) (map yr_presentValue recs) \<Longrightarrow>
   year \<le> projectionYears m + 1 \<Longrightarrow>
   dcf_loop m pj year lr tot recs =
     (foldl js_add (Num 0) (map yr_presentValue (dcf_records m pj r0 (nat (projectionYears m)))),
      dcf_records m pj r0 (nat (projectionYears m)))"
proof (induction m pj year lr tot recs rule: dcf_loop.induct)
  case (1 m pj year lastRevenue totalPV recs)
  show ?case
  proof (cases "year \<le> projectionYears m")
    case False
    with "1.prems" have "year = projectionYears m + 1" by simp
    with "1.prems" False show ?thesis
      by (subst dcf_loop.simps) simp
  next
    case True
    define r where "r = dcf_year m pj year lastRevenue"
    have n: "nat (year + 1 - 1) = Suc (nat (year - 1))" using "1.prems"(1) by simp
    have y: "int (nat (year - 1)) + 1 = year" using "1.prems"(1) by simp
    have z: "(nat (year - 1) = 0) = (year = 1)" using "1.prems"(1) by auto
    have recs': "recs @ [r] = dcf_records m pj r0 (nat (year + 1 - 1))"
      unfolding n using "1.prems" by (simp add: r_def y z)
    have "dcf_loop m pj (year + 1) (yr_revenue r) (js_add totalPV (yr_presentValue r)) (recs @ [r])
        = (foldl js_add (Num 0) (map yr_presentValue (dcf_records m pj r0 (nat (projectionYears m)))),
           dcf_records m pj r0 (nat (projectionYears m)))"
    proof (rule "1.IH"[OF True r_def])
      show "1 \<le> year + 1" using "1.prems"(1) by simp
      show "yr_revenue r = (if year + 1 = 1 then r0 else yr_revenue (last (recs @ [r])))"
        using "1.prems"(1) by simp
      show "js_add totalPV (yr_presentValue r) = foldl js_add (Num 0) (map yr_presentValue (recs @ [r]))"
        using "1.prems"(4) by simp
      show "year + 1 \<le> projectionYears m + 1" using True by simp
      show "recs @ [r] = dcf_records m pj r0 (nat (year + 1 - 1))" by (rule recs')
    qed
    then show ?thesis
      using True by (subst dcf_loop.simps) (simp add: r_def Let_def)
  qed
qed

lemma dcf_loop_run:
  assumes "1 \<le> projectionYears m"
  shows "dcf_loop m pj 1 r0 (Num 0) [] =
     (foldl js_add (Num 0) (map yr_presentValue (dcf_records m pj r0 (nat (projectionYears m)))),
      dcf_records m pj r0 (nat (projectionYears m)))"
  using assms by (intro dcf_loop_invariant) simp_all

lemma dcf_loop_empty:
  assumes "projectionYears m < 1"
  shows "dcf_loop m pj 1 r0 (Num 0) [] = (Num 0, [])"
  using assms by (subst dcf_loop.simps) simp

lemma arr_get_nth: "k < length xs \<Longrightarrow> arr_get xs (int k) = Some (xs ! k)"
  by (simp add: arr_get_def)

lemma arr_get_last:
  "xs \<noteq> [] \<Longrightarrow> arr_get xs (int (length xs) - 1) = Some (last xs)"
  by (simp add: arr_get_def last_conv_nth nat_diff_distrib')

lemma calculateDCF_fails:
  assumes "projectionYears m < 1"
  shows "calculateDCF m fd pj = Inl (DCFCalculationFailed TypeError)"
  using assms by (simp add: calculateDCF_def dcf_loop_empty arr_get_def)

lemma calculateDCF_returns:
  assumes "1 \<le> projectionYears m"
  shows "calculateDCF m fd pj = Inr (dcf_result m fd pj)"
proof -
  let ?recs = "dcf_records m pj (js_or (fd_revenue fd) (Num 0)) (nat (projectionYears m))"
  have "length ?recs \<noteq> 0" using assms by simp
  then have ne: "?recs \<noteq> []" by fastforce
  have "arr_get ?recs (projectionYears m - 1) = Some (last ?recs)"
    using arr_get_last[OF ne] assms by simp
  then show ?thesis
    using assms by (simp add: calculateDCF_def dcf_loop_run dcf_result_def Let_def)
qed

lemma calculateDCF_Inr_iff:
  "calculateDCF m fd pj = Inr r \<longleftrightarrow> 1 \<le> projectionYears m \<and> r = dcf_result m fd pj"
proof (cases "1 \<le> projectionYears m")
  case True
  then show ?thesis by (auto simp: calculateDCF_returns)
next
  case False
  then show ?thesis by (simp add: calculateDCF_fails)
qed

subsection \<open>No guard on the rate pair\<close>

text \<open>
  Claim C1 says that \<open>calculateDCF\<close> fails whenever the discount rate is at most the
  terminal growth rate. The code compares the two rates nowhere. With a discount rate
  of 2% and a terminal growth rate of 3% it returns a result, whose terminal value
  128.75 / (0.02 - 0.03) = -12875 comes from the negative denominator.
\<close>

theorem calculateDCF_rate_guard_counterexample:
  "js_le (Num (2 / 100)) (Num (3 / 100)) \<and>
   calculateDCF
     \<lparr>discountRate = Num (2 / 100), terminalGrowthRate = Num (3 / 100), projectionYears = 1,
      taxRate = Num (25 / 100)\<rparr>
     \<lparr>fd_revenue = Some (Num 1000), fd_sharesOutstanding = Some (Num 100),
      fd_currentPrice = Some (Num 150)\<rparr>
     \<lparr>pj_revenueGrowth = [Num (5 / 100)], pj_ebitdaMargin = [Num (2 / 10)],
      pj_depreciation = [Num 30], pj_capex = [Num 40], pj_workingCapitalChange = [Num 0]\<rparr>
   = Inr \<lparr>projectedCashFlows =
            [\<lparr>yr_year = 1, yr_revenue = Num 1050, yr_ebitda = Num 210, yr_ebit = Num 180,
              yr_nopat = Num 135, yr_freeCashFlow = Num 125,
              yr_presentValue = Num (6250 / 51)\<rparr>],
          terminalValue = Num (- 12875), presentValue = Num (- 12500),
          sharesOutstanding = Num 100, intrinsicValue = Num (- 125), currentPrice = Num 150,
          upside = Num (- (11 / 6)),
          assumptions =
            \<lparr>discountRate = Num (2 / 100), terminalGrowthRate = Num (3 / 100),
             projectionYears = 1, taxRate = Num (25 / 100)\<rparr>\<rparr>"
  by (simp add: calculateDCF_returns dcf_result_def dcf_year_def arr_get_def js_sub_def
        js_gt_def Let_def)

text \<open>
  Claim C1 as amended: \<open>calculateDCF\<close> does not validate the rate pair. It fails exactly
  when \<open>projectionYears\<close> is below 1, whatever the two rates are; otherwise it returns a
  result whose terminal value is the last year's free cash flow times (1 + terminal
  growth rate) divided by (discount rate - terminal growth rate), also when that
  denominator is negative or zero.
\<close>

theorem calculateDCF_no_rate_guard:
  "(isl (calculateDCF m fd pj) \<longleftrightarrow> projectionYears m < 1) \<and>
   (1 \<le> projectionYears m \<longrightarrow>
      (\<exists>r. calculateDCF m fd pj = Inr r \<and>
           terminalValue r =
             js_div (js_mul (yr_freeCashFlow (last (projectedCashFlows r)))
                            (js_add (Num 1) (terminalGrowthRate m)))
                    (js_sub (discountRate m) (terminalGrowthRate m))))"
proof (cases "1 \<le> projectionYears m")
  case True
  then show ?thesis by (simp add: calculateDCF_returns dcf_result_def Let_def)
next
  case False
  then show ?thesis by (simp add: calculateDCF_fails)
qed

theorem calculateDCF_no_rate_guard_witness:
  "(1::int) \<le> 1 \<and>
   \<not> isl (calculateDCF
     \<lparr>discountRate = Num (2 / 100), terminalGrowthRate = Num (3 / 100), projectionYears = 1,
      taxRate = Num (25 / 100)\<rparr>
     \<lparr>fd_revenue = Some (Num 1000), fd_sharesOutstanding = None, fd_currentPrice = None\<rparr>
     \<lparr>pj_revenueGrowth = [], pj_ebitdaMargin = [], pj_depreciation = [], pj_capex = [],
      pj_workingCapitalChange = []\<rparr>) \<and>
   (\<exists>r. calculateDCF
     \<lparr>discountRate = Num (2 / 100), terminalGrowthRate = Num (3 / 100), projectionYears = 1,
      taxRate = Num (25 / 100)\<rparr>
     \<lparr>fd_revenue = Some (Num 1000), fd_sharesOutstanding = None, fd_currentPrice = None\<rparr>
     \<lparr>pj_revenueGrowth = [], pj_ebitdaMargin = [], pj_depreciation = [], pj_capex = [],
      pj_workingCapitalChange = []\<rparr> = Inr r \<and>
     terminalValue r =
       js_div (js_mul (yr_freeCashFlow (last (projectedCashFlows r))) (Num (103 / 100)))
              (Num (- (1 / 100))))"
  using calculateDCF_no_rate_guard
    [of "\<lparr>discountRate = Num (2 / 100), terminalGrowthRate = Num (3 / 100), projectionYears = 1,
           taxRate = Num (25 / 100)\<rparr>"
        "\<lparr>fd_revenue = Some (Num 1000), fd_sharesOutstanding = None, fd_currentPrice = None\<rparr>"
        "\<lparr>pj_revenueGrowth = [], pj_ebitdaMargin = [], pj_depreciation = [], pj_capex = [],
          pj_workingCapitalChange = []\<rparr>"]
  by (simp add: js_sub_def)

subsection \<open>The per-share guards\<close>

text \<open>
  Claim C10: every result of \<open>calculateDCF\<close> carries \<open>intrinsicValue\<close> and \<open>upside\<close>
  (they are fields of the result, initialised to 0). With \<open>sharesOutstanding\<close> (the
  snapshot's value, or 0 when it is missing, zero or \<open>NaN\<close>) not above 0, both are 0,
  whatever the current price is; with \<open>sharesOutstanding\<close> above 0, \<open>intrinsicValue\<close> is
  \<open>presentValue / sharesOutstanding\<close>, and \<open>upside\<close> is 0 unless \<open>currentPrice\<close> is above 0.
\<close>

theorem calculateDCF_intrinsic_and_upside_guards:
  assumes "calculateDCF m fd pj = Inr r"
  shows "sharesOutstanding r = js_or (fd_sharesOutstanding fd) (Num 0) \<and>
         currentPrice r = js_or (fd_currentPrice fd) (Num 0) \<and>
         (\<not> js_gt (sharesOutstanding r) (Num 0) \<longrightarrow>
            intrinsicValue r = Num 0 \<and> upside r = Num 0) \<and>
         (js_gt (sharesOutstanding r) (Num 0) \<longrightarrow>
            intrinsicValue r = js_div (presentValue r) (sharesOutstanding r)) \<and>
         (js_gt (sharesOutstanding r) (Num 0) \<and> \<not> js_gt (currentPrice r) (Num 0) \<longrightarrow>
            upside r = Num 0) \<and>
         (js_gt (sharesOutstanding r) (Num 0) \<and> js_gt (currentPrice r) (Num 0) \<longrightarrow>
            upside r = js_div (js_sub (intrinsicValue r) (currentPrice r)) (currentPrice r))"
proof -
  from assms have r: "r = dcf_result m fd pj" by (simp add: calculateDCF_Inr_iff)
  show ?thesis unfolding r by (simp add: dcf_result_def Let_def)
qed

theorem calculateDCF_intrinsic_and_upside_guards_witness:
  "calculateDCF ex_model (ex_snapshot\<lparr>fd_sharesOutstanding := Some (Num (- 5))\<rparr>)
       ex_zero_projections
     = Inr (dcf_result ex_model (ex_snapshot\<lparr>fd_sharesOutstanding := Some (Num (- 5))\<rparr>)
         ex_zero_projections) \<and>
   \<not> js_gt (sharesOutstanding
       (dcf_result ex_model (ex_snapshot\<lparr>fd_sharesOutstanding := Some (Num (- 5))\<rparr>)
         ex_zero_projections)) (Num 0) \<and>
   intrinsicValue
       (dcf_result ex_model (ex_snapshot\<lparr>fd_sharesOutstanding := Some (Num (- 5))\<rparr>)
         ex_zero_projections) = Num 0 \<and>
   upside
       (dcf_result ex_model (ex_snapshot\<lparr>fd_sharesOutstanding := Some (Num (- 5))\<rparr>)
         ex_zero_projections) = Num 0 \<and>
   calculateDCF ex_model (ex_snapshot\<lparr>fd_currentPrice := None\<rparr>) ex_zero_projections
     = Inr (dcf_result ex_model (ex_snapshot\<lparr>fd_currentPrice := None\<rparr>) ex_zero_projections) \<and>
   js_gt (sharesOutstanding
       (dcf_result ex_model (ex_snapshot\<lparr>fd_currentPrice := None\<rparr>) ex_zero_projections))
     (Num 0) \<and>
   \<not> js_gt (currentPrice
       (dcf_result ex_model (ex_snapshot\<lparr>fd_currentPrice := None\<rparr>) ex_zero_projections))
     (Num 0) \<and>
   upside (dcf_result ex_model (ex_snapshot\<lparr>fd_currentPrice := None\<rparr>) ex_zero_projections)
     = Num 0 \<and>
   intrinsicValue
       (dcf_result ex_model (ex_snapshot\<lparr>fd_currentPrice := None\<rparr>) ex_zero_projections)
     = js_div (presentValue
         (dcf_result ex_model (ex_snapshot\<lparr>fd_currentPrice := None\<rparr>) ex_zero_projections))
       (Num 100)"
proof -
  have a: "calculateDCF ex_model (ex_snapshot\<lparr>fd_sharesOutstanding := Some (Num (- 5))\<rparr>)
       ex_zero_projections
     = Inr (dcf_result ex_model (ex_snapshot\<lparr>fd_sharesOutstanding := Some (Num (- 5))\<rparr>)
         ex_zero_projections)"
    by (simp add: calculateDCF_returns ex_model_def)
  have b: "calculateDCF ex_model (ex_snapshot\<lparr>fd_currentPrice := None\<rparr>) ex_zero_projections
     = Inr (dcf_result ex_model (ex_snapshot\<lparr>fd_currentPrice := None\<rparr>) ex_zero_projections)"
    by (simp add: calculateDCF_returns ex_model_def)
  show ?thesis
    using calculateDCF_intrinsic_and_upside_guards [OF a]
      calculateDCF_intrinsic_and_upside_guards [OF b] a b
    by (simp add: ex_snapshot_def js_gt_def)
qed

subsection \<open>Zero entries of the assumption arrays\<close>

lemma js_pow_Num [simp]: "js_pow (Num a) n = Num (a ^ n)"
  by (cases n) simp_all

lemma dcf_result_record:
  assumes "1 \<le> y" and "y \<le> projectionYears m"
  shows "projectedCashFlows (dcf_result m fd pj) ! nat (y - 1) =
     dcf_year m pj y
       (if y = 1 then js_or (fd_revenue fd) (Num 0)
        else yr_revenue (projectedCashFlows (dcf_result m fd pj) ! nat (y - 2)))"
proof -
  have k: "nat (y - 1) < nat (projectionYears m)" using assms by simp
  have a: "int (nat (y - 1)) + 1 = y" using assms by simp
  have b: "nat (y - 1) - 1 = nat (y - 2)" using assms by simp
  have c: "(nat (y - 1) = 0) = (y = 1)" using assms by auto
  have "dcf_records m pj (js_or (fd_revenue fd) (Num 0)) (nat (projectionYears m)) ! nat (y - 1) =
     dcf_year m pj y
       (if y = 1 then js_or (fd_revenue fd) (Num 0)
        else yr_revenue (dcf_records m pj (js_or (fd_revenue fd) (Num 0))
               (nat (projectionYears m)) ! nat (y - 2)))"
    using dcf_records_nth[OF k, of m pj "js_or (fd_revenue fd) (Num 0)"]
    by (simp only: a b c)
  then show ?thesis
    by (simp add: dcf_result_def Let_def)
qed

text \<open>
  Claim C9: in the record of every year \<open>y\<close> of a result of \<open>calculateDCF\<close>, a margin
  entry that is zero (or missing) is replaced by 0.15, a depreciation entry that is
  zero (or missing) by 3% of the year's revenue, in \<open>ebit\<close> and in \<open>freeCashFlow\<close>, and a
  capex entry that is zero (or missing) by 4% of the year's revenue.
\<close>

theorem calculateDCF_zero_entries_defaulted:
  assumes "calculateDCF m fd pj = Inr r" and "1 \<le> y" and "y \<le> projectionYears m"
  shows
    "(let yr = projectedCashFlows r ! nat (y - 1);
          rev = yr_revenue yr;
          dep = js_or (arr_get (pj_depreciation pj) (y - 1)) (js_mul rev (Num (3 / 100)));
          cap = js_or (arr_get (pj_capex pj) (y - 1)) (js_mul rev (Num (4 / 100)));
          wc = js_or (arr_get (pj_workingCapitalChange pj) (y - 1)) (Num 0)
      in (arr_get (pj_ebitdaMargin pj) (y - 1) \<in> {None, Some (Num 0)} \<longrightarrow>
            yr_ebitda yr = js_mul rev (Num (15 / 100))) \<and>
         (arr_get (pj_depreciation pj) (y - 1) \<in> {None, Some (Num 0)} \<longrightarrow>
            yr_ebit yr = js_sub (yr_ebitda yr) (js_mul rev (Num (3 / 100))) \<and>
            yr_freeCashFlow yr =
              js_sub (js_sub (js_add (yr_nopat yr) (js_mul rev (Num (3 / 100)))) cap) wc) \<and>
         (arr_get (pj_capex pj) (y - 1) \<in> {None, Some (Num 0)} \<longrightarrow>
            yr_freeCashFlow yr =
              js_sub (js_sub (js_add (yr_nopat yr) dep) (js_mul rev (Num (4 / 100)))) wc))"
proof -
  from assms(1) have r: "r = dcf_result m fd pj" by (simp add: calculateDCF_Inr_iff)
  show ?thesis
    unfolding r dcf_result_record[OF assms(2,3)]
    by (auto simp: dcf_year_def Let_def)
qed


theorem calculateDCF_zero_entries_defaulted_witness:
  "calculateDCF ex_model ex_snapshot ex_zero_projections
     = Inr (dcf_result ex_model ex_snapshot ex_zero_projections) \<and>
   (1::int) \<le> 1 \<and> 1 \<le> projectionYears ex_model \<and>
   arr_get (pj_ebitdaMargin ex_zero_projections) (1 - 1) \<in> {None, Some (Num 0)} \<and>
   arr_get (pj_depreciation ex_zero_projections) (1 - 1) \<in> {None, Some (Num 0)} \<and>
   arr_get (pj_capex ex_zero_projections) (1 - 1) \<in> {None, Some (Num 0)} \<and>
   yr_revenue (projectedCashFlows (dcf_result ex_model ex_snapshot ex_zero_projections) ! 0)
     = Num 1050 \<and>
   yr_ebitda (projectedCashFlows (dcf_result ex_model ex_snapshot ex_zero_projections) ! 0)
     = js_mul (Num 1050) (Num (15 / 100)) \<and>
   yr_ebit (projectedCashFlows (dcf_result ex_model ex_snapshot ex_zero_projections) ! 0)
     = Num 126 \<and>
   yr_freeCashFlow (projectedCashFlows (dcf_result ex_model ex_snapshot ex_zero_projections) ! 0)
     = Num 84"
proof -
  have a: "calculateDCF ex_model ex_snapshot ex_zero_projections
     = Inr (dcf_result ex_model ex_snapshot ex_zero_projections)"
    by (simp add: calculateDCF_returns ex_model_def)
  show ?thesis
    using calculateDCF_zero_entries_defaulted [OF a, of 1] a
    by (simp add: ex_model_def ex_snapshot_def ex_zero_projections_def dcf_result_def
          dcf_year_def arr_get_def js_sub_def Let_def)
qed

subsection \<open>The reference recurrences\<close>

lemma dcf_year_spec:
  assumes "k < n"
    and "length (s_growth si) = n" and "length (s_margin si) = n"
    and "length (s_depreciation si) = n" and "length (s_capex si) = n"
    and "length (s_wcChange si) = n"
    and "\<forall>x \<in> set (s_margin si). x \<noteq> 0"
    and "\<forall>x \<in> set (s_depreciation si). x \<noteq> 0"
    and "\<forall>x \<in> set (s_capex si). x \<noteq> 0"
    and "1 + s_discountRate si \<noteq> 0"
  shows "dcf_year (spec_model si n) (spec_projections si) (int k + 1) (Num (spec_revenue si k))
           = spec_record si (Suc k)"
proof -
  have m: "s_margin si ! k \<noteq> 0" using assms(1,3,7) by (metis nth_mem)
  have d: "s_depreciation si ! k \<noteq> 0" using assms(1,4,8) by (metis nth_mem)
  have c: "s_capex si ! k \<noteq> 0" using assms(1,5,9) by (metis nth_mem)
  have p: "nat (int k + 1) = Suc k" by simp
  have g: "js_or (Some (Num (s_growth si ! k))) (Num 0) = Num (s_growth si ! k)" by simp
  have w: "js_or (Some (Num (s_wcChange si ! k))) (Num 0) = Num (s_wcChange si ! k)" by simp
  have pw: "(1 + s_discountRate si) ^ Suc k \<noteq> 0" using assms(10) by simp
  show ?thesis
    using assms(1-6) m d c pw
    by (simp add: dcf_year_def spec_record_def spec_model_def spec_projections_def arr_get_def
          Let_def js_sub_def spec_ebitda_def spec_ebit_def spec_nopat_def spec_freeCashFlow_def
          spec_presentValue_def p right_diff_distrib del: power_Suc)
qed


lemma dcf_records_spec:
  assumes "length (s_growth si) = n" and "length (s_margin si) = n"
    and "length (s_depreciation si) = n" and "length (s_capex si) = n"
    and "length (s_wcChange si) = n"
    and "\<forall>x \<in> set (s_margin si). x \<noteq> 0"
    and "\<forall>x \<in> set (s_depreciation si). x \<noteq> 0"
    and "\<forall>x \<in> set (s_capex si). x \<noteq> 0"
    and "1 + s_discountRate si \<noteq> 0"
  shows "k \<le> n \<Longrightarrow>
     dcf_records (spec_model si n) (spec_projections si) (Num (s_revenue si)) k
       = map (spec_record si) [1..<Suc k]"
proof (induction k)
  case 0
  then show ?case by simp
next
  case (Suc k)
  then have k: "k < n" by simp
  have ih: "dcf_records (spec_model si n) (spec_projections si) (Num (s_revenue si)) k
      = map (spec_record si) [1..<Suc k]"
    using Suc by simp
  have prev: "(if k = 0 then Num (s_revenue si)
               else yr_revenue
                 (last (dcf_records (spec_model si n) (spec_projections si) (Num (s_revenue si)) k)))
              = Num (spec_revenue si k)"
  proof (cases k)
    case 0
    then show ?thesis by simp
  next
    case (Suc j)
    have "[1..<Suc (Suc j)] = [1..<Suc j] @ [Suc j]" by simp
    then have "last (map (spec_record si) [1..<Suc (Suc j)]) = spec_record si (Suc j)"
      by (simp del: upt_Suc)
    then show ?thesis
      unfolding ih unfolding Suc by (simp add: spec_record_def del: upt_Suc)
  qed
  have "dcf_records (spec_model si n) (spec_projections si) (Num (s_revenue si)) (Suc k)
      = map (spec_record si) [1..<Suc k] @
          [dcf_year (spec_model si n) (spec_projections si) (int k + 1) (Num (spec_revenue si k))]"
    by (simp only: dcf_records.simps prev) (simp only: ih)
  also have "\<dots> = map (spec_record si) [1..<Suc k] @ [spec_record si (Suc k)]"
    by (simp only: dcf_year_spec[OF k assms])
  also have "\<dots> = map (spec_record si) [1..<Suc (Suc k)]"
    by simp
  finally show ?case .
qed

lemma foldl_presentValue_spec:
  "foldl js_add (Num a) (map yr_presentValue (map (spec_record si) ys))
     = Num (a + sum_list (map (spec_presentValue si) ys))"
  by (induction ys arbitrary: a) (simp_all add: spec_record_def add.assoc)

text \<open>
  Claim C2 says that the records satisfy the reference recurrences for every input
  with positive revenue and at least one year. With a margin entry of zero they do
  not: the code computes \<open>ebitda\<close> with the default margin 0.15, here 157.5 for a
  revenue of 1050, where revenue times margin is 0.
\<close>

theorem calculateDCF_reference_recurrences_counterexample:
  "(case calculateDCF
      \<lparr>discountRate = Num (10 / 100), terminalGrowthRate = Num (25 / 1000), projectionYears = 1,
       taxRate = Num (25 / 100)\<rparr>
      \<lparr>fd_revenue = Some (Num 1000), fd_sharesOutstanding = Some (Num 100),
       fd_currentPrice = Some (Num 150)\<rparr>
      \<lparr>pj_revenueGrowth = [Num (5 / 100)], pj_ebitdaMargin = [Num 0],
       pj_depreciation = [Num 30], pj_capex = [Num 40], pj_workingCapitalChange = [Num 0]\<rparr>
    of Inl e \<Rightarrow> False
     | Inr r \<Rightarrow>
         yr_revenue (projectedCashFlows r ! 0) = Num 1050 \<and>
         yr_ebitda (projectedCashFlows r ! 0) = Num (315 / 2) \<and>
         yr_ebitda (projectedCashFlows r ! 0)
           \<noteq> js_mul (yr_revenue (projectedCashFlows r ! 0)) (Num 0))"
  by (simp add: calculateDCF_returns dcf_result_def dcf_year_def arr_get_def js_sub_def
        js_gt_def Let_def)

text \<open>
  Claim C2 as amended: for finite inputs over \<open>n \<ge> 1\<close> years, five assumption
  sequences of length \<open>n\<close> whose margin, depreciation and capex entries are not zero, a
  discount rate other than -1 and other than the terminal growth rate,
  \<open>calculateDCF\<close> returns a result whose year records are those of the reference
  recurrences, whose terminal value is the reference terminal value and whose present
  value is the sum of the yearly present values plus the discounted terminal value.
  In particular a last free cash flow of 100 at rates 10% and 2.5% gives the terminal
  value 4100/3, within 0.01 of 1366.67, as the instance after the theorem shows.
\<close>

theorem calculateDCF_reference_recurrences:
  assumes "0 < n"
    and "length (s_growth si) = n" and "length (s_margin si) = n"
    and "length (s_depreciation si) = n" and "length (s_capex si) = n"
    and "length (s_wcChange si) = n"
    and "\<forall>x \<in> set (s_margin si). x \<noteq> 0"
    and "\<forall>x \<in> set (s_depreciation si). x \<noteq> 0"
    and "\<forall>x \<in> set (s_capex si). x \<noteq> 0"
    and "1 + s_discountRate si \<noteq> 0"
    and "s_discountRate si \<noteq> s_terminalGrowthRate si"
    and "fd_revenue fd = Some (Num (s_revenue si))"
  shows "\<exists>r. calculateDCF (spec_model si n) fd (spec_projections si) = Inr r \<and>
           projectedCashFlows r = map (spec_record si) [1..<Suc n] \<and>
           terminalValue r = Num (spec_terminalValue si n) \<and>
           presentValue r = Num (spec_enterpriseValue si n)"
proof -
  let ?m = "spec_model si n" and ?pj = "spec_projections si"
  have N: "projectionYears ?m = int n" by (simp add: spec_model_def)
  have ret: "calculateDCF ?m fd ?pj = Inr (dcf_result ?m fd ?pj)"
    using assms(1) by (simp add: calculateDCF_returns N)
  have r0: "js_or (fd_revenue fd) (Num 0) = Num (s_revenue si)"
    using assms(12) by simp
  have recs: "dcf_records ?m ?pj (Num (s_revenue si)) n = map (spec_record si) [1..<Suc n]"
    using dcf_records_spec[OF assms(2-10), of n] by simp
  have "[1..<Suc n] = [1..<n] @ [n]" using assms(1) by simp
  then have lst: "last (map (spec_record si) [1..<Suc n]) = spec_record si n"
    by (simp del: upt_Suc)
  have pw: "(1 + s_discountRate si) ^ n \<noteq> 0" using assms(10) by simp
  have dg: "s_discountRate si - s_terminalGrowthRate si \<noteq> 0" using assms(11) by simp
  have rates: "discountRate ?m = Num (s_discountRate si)"
      "terminalGrowthRate ?m = Num (s_terminalGrowthRate si)"
    by (simp_all add: spec_model_def)
  have fcf: "yr_freeCashFlow (last (dcf_records ?m ?pj (Num (s_revenue si)) n))
      = Num (spec_freeCashFlow si n)"
    by (simp only: recs lst) (simp add: spec_record_def)
  have total: "foldl js_add (Num 0)
         (map yr_presentValue (dcf_records ?m ?pj (Num (s_revenue si)) n))
      = Num (sum_list (map (spec_presentValue si) [1..<Suc n]))"
    by (simp only: recs foldl_presentValue_spec) simp
  have "projectedCashFlows (dcf_result ?m fd ?pj) = map (spec_record si) [1..<Suc n]"
    by (simp add: dcf_result_def Let_def N r0 recs del: upt_Suc)
  moreover have tv: "terminalValue (dcf_result ?m fd ?pj) = Num (spec_terminalValue si n)"
    using dg by (simp add: dcf_result_def Let_def N r0 fcf rates js_sub_def
        spec_terminalValue_def del: upt_Suc)
  moreover have "presentValue (dcf_result ?m fd ?pj) = Num (spec_enterpriseValue si n)"
    using dg pw by (simp add: dcf_result_def Let_def N r0 fcf total rates js_sub_def
        spec_terminalValue_def spec_enterpriseValue_def del: upt_Suc)
  ultimately show ?thesis using ret by simp
qed


theorem calculateDCF_reference_recurrences_witness:
  "0 < (1::nat) \<and> length (s_growth ex_inputs) = 1 \<and> length (s_margin ex_inputs) = 1 \<and>
   length (s_depreciation ex_inputs) = 1 \<and> length (s_capex ex_inputs) = 1 \<and>
   length (s_wcChange ex_inputs) = 1 \<and>
   s_margin ex_inputs = [2 / 10] \<and> s_depreciation ex_inputs = [40] \<and>
   s_capex ex_inputs = [50] \<and>
   1 + s_discountRate ex_inputs \<noteq> 0 \<and>
   s_discountRate ex_inputs \<noteq> s_terminalGrowthRate ex_inputs \<and>
   fd_revenue ex_snapshot = Some (Num (s_revenue ex_inputs)) \<and>
   (\<exists>r. calculateDCF (spec_model ex_inputs 1) ex_snapshot (spec_projections ex_inputs) = Inr r \<and>
        projectedCashFlows r =
          [\<lparr>yr_year = 1, yr_revenue = Num 1000, yr_ebitda = Num 200, yr_ebit = Num 160,
            yr_nopat = Num 120, yr_freeCashFlow = Num 100, yr_presentValue = Num (1000 / 11)\<rparr>] \<and>
        terminalValue r = Num (4100 / 3) \<and> \<bar>4100 / 3 - 136667 / 100\<bar> \<le> (1 / 100 :: real) \<and>
        presentValue r = Num (4000 / 3))"
  using calculateDCF_reference_recurrences [of 1 ex_inputs ex_snapshot]
  by (simp add: ex_inputs_def ex_snapshot_def spec_record_def spec_ebitda_def spec_ebit_def
        spec_nopat_def spec_freeCashFlow_def spec_presentValue_def spec_terminalValue_def
        spec_enterpriseValue_def)

section \<open>Properties of the LBO engine\<close>

subsection \<open>The projection loop\<close>

lemma length_lbo_records [simp]: "length (lbo_records dp n) = n"
  by (induction n) auto

lemma lbo_records_nth:
  "k < n \<Longrightarrow>
   lbo_records dp n ! k =
     lbo_year dp (int k)
       (if k = 0 then lbo_totalDebt dp else p_debtBalance (lbo_records dp n ! (k - 1)))"
proof (induction n)
  case 0
  then show ?case by simp
next
  case (Suc n)
  show ?case
  proof (cases "k < n")
    case True
    then have "k - 1 < n" by simp
    with True Suc.IH show ?thesis by (simp add: nth_append)
  next
    case False
    with Suc.prems have k: "k = n" by simp
    show ?thesis
    proof (cases "n = 0")
      case True
      with k show ?thesis by simp
    next
      case False
      then have "lbo_records dp n \<noteq> []"
        by (metis length_lbo_records list.size(3))
      then have "last (lbo_records dp n) = lbo_records dp n ! (n - 1)"
        using last_conv_nth[of "lbo_records dp n"] by simp
      with k False show ?thesis by (simp add: nth_append)
    qed
  qed
qed

lemma lbo_loop_invariant:
  "0 \<le> year \<Longrightarrow> projs = lbo_records dp (nat year) \<Longrightarrow>
   debt = (if year = 0 then lbo_totalDebt dp else p_debtBalance (last projs)) \<Longrightarrow>
   year \<le> holdPeriod m + 1 \<Longrightarrow>
   lbo_loop m dp year debt projs = lbo_records dp (nat (holdPeriod m + 1))"
proof (induction m dp year debt projs rule: lbo_loop.induct)
  case (1 m dp year currentDebt projs)
  show ?case
  proof (cases "year \<le> holdPeriod m")
    case False
    with "1.prems" have "year = holdPeriod m + 1" by simp
    with "1.prems" False show ?thesis
      by (subst lbo_loop.simps) simp
  next
    case True
    define p where "p = lbo_year dp year currentDebt"
    have n: "nat (year + 1) = Suc (nat year)" using "1.prems"(1) by simp
    have y: "int (nat year) = year" using "1.prems"(1) by simp
    have z: "(nat year = 0) = (year = 0)" using "1.prems"(1) by auto
    have projs': "projs @ [p] = lbo_records dp (nat (year + 1))"
      unfolding n using "1.prems" by (simp add: p_def y z)
    have "lbo_loop m dp (year + 1) (p_debtBalance p) (projs @ [p])
        = lbo_records dp (nat (holdPeriod m + 1))"
    proof (rule "1.IH"[OF True p_def])
      show "0 \<le> year + 1" using "1.prems"(1) by simp
      show "p_debtBalance p = (if year + 1 = 0 then lbo_totalDebt dp
                               else p_debtBalance (last (projs @ [p])))"
        using "1.prems"(1) by simp
      show "year + 1 \<le> holdPeriod m + 1" using True by simp
      show "projs @ [p] = lbo_records dp (nat (year + 1))" by (rule projs')
    qed
    then show ?thesis
      using True by (subst lbo_loop.simps) (simp add: p_def Let_def)
  qed
qed

lemma lbo_loop_run:
  assumes "0 \<le> holdPeriod m"
  shows "lbo_loop m dp 0 (lbo_totalDebt dp) [] = lbo_projections m dp"
  unfolding lbo_projections_def using assms by (intro lbo_loop_invariant) simp_all

lemma lbo_loop_empty:
  assumes "holdPeriod m < 0"
  shows "lbo_loop m dp 0 debt [] = []"
  using assms by (subst lbo_loop.simps) simp

lemma length_lbo_projections:
  "0 \<le> holdPeriod m \<Longrightarrow> length (lbo_projections m dp) = nat (holdPeriod m) + 1"
  by (simp add: lbo_projections_def nat_add_distrib)

lemma lbo_exit_year:
  assumes "0 \<le> holdPeriod m"
  shows "arr_get (lbo_projections m dp) (holdPeriod m) = Some (last (lbo_projections m dp))"
proof -
  have ne: "lbo_projections m dp \<noteq> []"
    using length_lbo_projections[OF assms, of dp] by auto
  show ?thesis
    using arr_get_last[OF ne] length_lbo_projections[OF assms, of dp] assms by simp
qed

lemma calculateLBO_negative_hold:
  assumes "holdPeriod m < 0"
  shows "calculateLBO m dp = Inl (LBOCalculationFailed (Thrown TypeError))"
  using assms by (simp add: calculateLBO_def lbo_loop_empty arr_get_def)

lemma calculateLBO_irr_fails:
  assumes "0 \<le> holdPeriod m"
    and "calculateIRR (lbo_equityContribution dp) (lbo_cashFlows m dp) (lbo_exitEquityValue m dp)
           = Inl e"
  shows "calculateLBO m dp = Inl (LBOCalculationFailed (IRRFailed e))"
  using assms
  by (simp add: calculateLBO_def lbo_loop_run lbo_exit_year Let_def lbo_cashFlows_def
        lbo_exitEquityValue_def)

lemma calculateLBO_returns:
  assumes "calculateLBO m dp = Inr r"
  shows "0 \<le> holdPeriod m \<and> projections r = lbo_projections m dp \<and>
         (\<exists>irr. calculateIRR (lbo_equityContribution dp) (lbo_cashFlows m dp)
                  (lbo_exitEquityValue m dp) = Inr irr \<and> rt_irr (returns r) = irr)"
proof -
  have h: "0 \<le> holdPeriod m"
    using assms calculateLBO_negative_hold[of m dp] by (cases "0 \<le> holdPeriod m") auto
  show ?thesis
    using assms h
    by (auto simp: calculateLBO_def lbo_loop_run lbo_exit_year Let_def lbo_cashFlows_def
        lbo_exitEquityValue_def split: sum.splits)
qed

subsection \<open>The root finder\<close>

lemma fst_foldl_npv_step:
  "fst (foldl (npv_step cfs rate) acc is) =
     foldl js_add (fst acc) (map (\<lambda>i. js_div (cfs ! i) (js_pow (js_add (Num 1) rate) i)) is)"
  by (induction "is" arbitrary: acc) (simp_all add: npv_step_def)


lemma irr_loop_step:
  assumes "k < maxIterations"
    and "\<not> converged cfs (newton_rate cfs k)" and "\<not> flat_slope cfs (newton_rate cfs k)"
  shows "irr_loop cfs (newton_rate cfs k) k = irr_loop cfs (newton_rate cfs (Suc k)) (Suc k)"
  using assms
  by (subst irr_loop.simps) (simp add: converged_def flat_slope_def case_prod_beta)

lemma irr_loop_converges:
  assumes "n < maxIterations" and "converged cfs (newton_rate cfs n)"
    and "\<forall>j. k \<le> j \<and> j < n \<longrightarrow>
           \<not> converged cfs (newton_rate cfs j) \<and> \<not> flat_slope cfs (newton_rate cfs j)"
    and "k \<le> n"
  shows "irr_loop cfs (newton_rate cfs k) k = Inr (newton_rate cfs n, n)"
  using assms(3,4)
proof (induction "n - k" arbitrary: k)
  case 0
  then have "k = n" by simp
  then show ?case
    using assms(1,2) by (subst irr_loop.simps) (simp add: converged_def case_prod_beta)
next
  case (Suc d)
  then have kn: "k < n" by simp
  then have km: "k < maxIterations" using assms(1) by simp
  have nc: "\<not> converged cfs (newton_rate cfs k)" "\<not> flat_slope cfs (newton_rate cfs k)"
    using Suc.prems(1) kn by auto
  have "irr_loop cfs (newton_rate cfs (Suc k)) (Suc k) = Inr (newton_rate cfs n, n)"
    using Suc.hyps(2) Suc.prems kn by (intro Suc.hyps(1)) auto
  then show ?case by (simp only: irr_loop_step[OF km nc])
qed

lemma irr_loop_flat:
  assumes "n < maxIterations" and "\<not> converged cfs (newton_rate cfs n)"
    and "flat_slope cfs (newton_rate cfs n)"
    and "\<forall>j. k \<le> j \<and> j < n \<longrightarrow>
           \<not> converged cfs (newton_rate cfs j) \<and> \<not> flat_slope cfs (newton_rate cfs j)"
    and "k \<le> n"
  shows "irr_loop cfs (newton_rate cfs k) k = Inl DerivativeTooSmall"
  using assms(4,5)
proof (induction "n - k" arbitrary: k)
  case 0
  then have "k = n" by simp
  then show ?case
    using assms(1,2,3)
    by (subst irr_loop.simps) (simp add: converged_def flat_slope_def case_prod_beta)
next
  case (Suc d)
  then have kn: "k < n" by simp
  then have km: "k < maxIterations" using assms(1) by simp
  have nc: "\<not> converged cfs (newton_rate cfs k)" "\<not> flat_slope cfs (newton_rate cfs k)"
    using Suc.prems(1) kn by auto
  have "irr_loop cfs (newton_rate cfs (Suc k)) (Suc k) = Inl DerivativeTooSmall"
    using Suc.hyps(2) Suc.prems kn by (intro Suc.hyps(1)) auto
  then show ?case by (simp only: irr_loop_step[OF km nc])
qed

lemma irr_loop_exhausts:
  assumes "\<forall>j. k \<le> j \<and> j < maxIterations \<longrightarrow>
           \<not> converged cfs (newton_rate cfs j) \<and> \<not> flat_slope cfs (newton_rate cfs j)"
    and "k \<le> maxIterations"
  shows "irr_loop cfs (newton_rate cfs k) k = Inr (newton_rate cfs maxIterations, maxIterations)"
  using assms
proof (induction "maxIterations - k" arbitrary: k)
  case 0
  then have "k = maxIterations" by simp
  then show ?case by (subst irr_loop.simps) simp
next
  case (Suc d)
  then have km: "k < maxIterations" by simp
  have nc: "\<not> converged cfs (newton_rate cfs k)" "\<not> flat_slope cfs (newton_rate cfs k)"
    using Suc.prems(1) km by auto
  have "irr_loop cfs (newton_rate cfs (Suc k)) (Suc k)
      = Inr (newton_rate cfs maxIterations, maxIterations)"
    using Suc.hyps(2) Suc.prems km by (intro Suc.hyps(1)) auto
  then show ?case by (simp only: irr_loop_step[OF km nc])
qed


lemma irr_loop_cases:
  "(\<exists>n < maxIterations. (\<forall>j < n. \<not> stops_at cfs j) \<and> converged cfs (newton_rate cfs n) \<and>
       irr_loop cfs (Num (15 / 100)) 0 = Inr (newton_rate cfs n, n)) \<or>
   (\<exists>n < maxIterations. (\<forall>j < n. \<not> stops_at cfs j) \<and> \<not> converged cfs (newton_rate cfs n) \<and>
       flat_slope cfs (newton_rate cfs n) \<and>
       irr_loop cfs (Num (15 / 100)) 0 = Inl DerivativeTooSmall) \<or>
   ((\<forall>j < maxIterations. \<not> stops_at cfs j) \<and>
       irr_loop cfs (Num (15 / 100)) 0 = Inr (newton_rate cfs maxIterations, maxIterations))"
proof (cases "\<exists>n < maxIterations. stops_at cfs n")
  case False
  then have none: "\<forall>j < maxIterations. \<not> stops_at cfs j" by simp
  then have "irr_loop cfs (newton_rate cfs 0) 0
      = Inr (newton_rate cfs maxIterations, maxIterations)"
    by (intro irr_loop_exhausts) (auto simp: stops_at_def)
  with none show ?thesis by simp
next
  case True
  define n where "n = (LEAST n. n < maxIterations \<and> stops_at cfs n)"
  from True obtain n0 where "n0 < maxIterations \<and> stops_at cfs n0" by blast
  then have n: "n < maxIterations \<and> stops_at cfs n"
    unfolding n_def by (rule LeastI)
  have least: "\<not> stops_at cfs j" if "j < n" for j
  proof
    assume "stops_at cfs j"
    with that n have "j < maxIterations \<and> stops_at cfs j" by simp
    then have "n \<le> j" unfolding n_def by (rule Least_le)
    with that show False by simp
  qed
  then have pre: "\<forall>j. 0 \<le> j \<and> j < n \<longrightarrow>
      \<not> converged cfs (newton_rate cfs j) \<and> \<not> flat_slope cfs (newton_rate cfs j)"
    by (auto simp: stops_at_def)
  show ?thesis
  proof (cases "converged cfs (newton_rate cfs n)")
    case True
    have "irr_loop cfs (newton_rate cfs 0) 0 = Inr (newton_rate cfs n, n)"
      using n True pre by (intro irr_loop_converges) auto
    with n True least show ?thesis by auto
  next
    case False
    with n have fl: "flat_slope cfs (newton_rate cfs n)" by (simp add: stops_at_def)
    have "irr_loop cfs (newton_rate cfs 0) 0 = Inl DerivativeTooSmall"
      using n False fl pre by (intro irr_loop_flat[where n = n]) auto
    with n False fl least show ?thesis by auto
  qed
qed


lemma calculateIRR_Inr_iff:
  "calculateIRR i0 cs t = Inr rate \<longleftrightarrow>
     (\<exists>n < maxIterations. (\<forall>j < n. \<not> stops_at (allCashFlows i0 cs t) j) \<and>
        converged (allCashFlows i0 cs t) (newton_rate (allCashFlows i0 cs t) n) \<and>
        rate = newton_rate (allCashFlows i0 cs t) n)"
proof
  assume r: "calculateIRR i0 cs t = Inr rate"
  from irr_loop_cases[of "allCashFlows i0 cs t"] r
  show "\<exists>n < maxIterations. (\<forall>j < n. \<not> stops_at (allCashFlows i0 cs t) j) \<and>
        converged (allCashFlows i0 cs t) (newton_rate (allCashFlows i0 cs t) n) \<and>
        rate = newton_rate (allCashFlows i0 cs t) n"
    by (auto simp: calculateIRR_def)
next
  assume "\<exists>n < maxIterations. (\<forall>j < n. \<not> stops_at (allCashFlows i0 cs t) j) \<and>
        converged (allCashFlows i0 cs t) (newton_rate (allCashFlows i0 cs t) n) \<and>
        rate = newton_rate (allCashFlows i0 cs t) n"
  then obtain n where n: "n < maxIterations"
    and pre: "\<forall>j < n. \<not> stops_at (allCashFlows i0 cs t) j"
    and c: "converged (allCashFlows i0 cs t) (newton_rate (allCashFlows i0 cs t) n)"
    and rate: "rate = newton_rate (allCashFlows i0 cs t) n" by blast
  have "irr_loop (allCashFlows i0 cs t) (newton_rate (allCashFlows i0 cs t) 0) 0
      = Inr (newton_rate (allCashFlows i0 cs t) n, n)"
    using n c pre by (intro irr_loop_converges) (auto simp: stops_at_def)
  then show "calculateIRR i0 cs t = Inr rate"
    using n rate by (simp add: calculateIRR_def)
qed






subsection \<open>The point estimate of the LBO engine\<close>

lemma calculateLBO_eq:
  "calculateLBO m dp =
    (if holdPeriod m < 0 then Inl (LBOCalculationFailed (Thrown TypeError))
     else case calculateIRR (lbo_equityContribution dp) (lbo_cashFlows m dp)
                 (lbo_exitEquityValue m dp) of
            Inl e \<Rightarrow> Inl (LBOCalculationFailed (IRRFailed e))
          | Inr irr \<Rightarrow> Inr (lbo_result m dp irr))"
proof (cases "holdPeriod m < 0")
  case True
  then show ?thesis by (simp add: calculateLBO_negative_hold)
next
  case False
  then have h: "0 \<le> holdPeriod m" by simp
  show ?thesis
    using False
    by (simp add: calculateLBO_def lbo_loop_run[OF h] lbo_exit_year[OF h] Let_def
          lbo_cashFlows_def lbo_exitEquityValue_def lbo_result_def split: sum.splits)
qed


lemma lbo_projection_at:
  assumes "0 \<le> y" and "y \<le> holdPeriod m"
  shows "lbo_projections m dp ! nat y =
     lbo_year dp y
       (if y = 0 then lbo_totalDebt dp
        else p_debtBalance (lbo_projections m dp ! nat (y - 1)))"
proof -
  have k: "nat y < nat (holdPeriod m + 1)" using assms by simp
  have a: "int (nat y) = y" using assms by simp
  have b: "nat y - 1 = nat (y - 1)" using assms by simp
  have c: "(nat y = 0) = (y = 0)" using assms by auto
  show ?thesis
    unfolding lbo_projections_def
    using lbo_records_nth[OF k, of dp] by (simp only: a b c)
qed

lemma ex_deal_projections:
  "lbo_projections ex_lbo_model ex_deal =
     [\<lparr>p_year = 0, p_revenue = Num 1000, p_ebitda = Num 200, p_ebit = Num 170,
       p_netIncome = Num 120, p_freeCashFlow = Num 120, p_debtBalance = Num 40,
       p_debtPaydown = Num 60, p_cashToSponsor = Num 60,
       p_creditMetrics =
         \<lparr>cm_debtToEbitda = Num (1 / 5), cm_ebitdaToInterest = Num 20, cm_fcfToDebt = Num 3\<rparr>\<rparr>,
      \<lparr>p_year = 1, p_revenue = Num 1100, p_ebitda = Num 220, p_ebit = Num 187,
       p_netIncome = Num (549 / 4), p_freeCashFlow = Num 100, p_debtBalance = Num 0,
       p_debtPaydown = Num 50, p_cashToSponsor = Num 50,
       p_creditMetrics =
         \<lparr>cm_debtToEbitda = Num 0, cm_ebitdaToInterest = Num 55, cm_fcfToDebt = PosInf\<rparr>\<rparr>]"
  by (simp add: lbo_projections_def ex_lbo_model_def ex_deal_def numeral_2_eq_2 lbo_year_def
        lbo_currentRevenue_def lbo_totalDebt_def calculateInterestExpense_def arr_get_def
        js_sub_def js_max_def js_inf_signed_def Let_def)

lemma irr_of_par_stream:
  "calculateIRR (Num 1000) [Num 50] (Num 1100) = Inr (Num (15 / 100))"
  by (simp add: calculateIRR_def allCashFlows_def irr_loop.simps maxIterations_def tolerance_def
        npv_and_derivative_def npv_step_def upt_rec js_sub_def)

lemma ex_deal_returns:
  "calculateLBO ex_lbo_model ex_deal = Inr (lbo_result ex_lbo_model ex_deal (Num (15 / 100)))"
proof -
  have e: "lbo_equityContribution ex_deal = Num 1000"
    by (simp add: lbo_equityContribution_def lbo_totalDebt_def ex_deal_def js_sub_def)
  have c: "lbo_cashFlows ex_lbo_model ex_deal = [Num 50]"
    by (simp add: lbo_cashFlows_def ex_deal_projections)
  have x: "lbo_exitEquityValue ex_lbo_model ex_deal = Num 1100"
    by (simp add: lbo_exitEquityValue_def ex_deal_projections js_sub_def) (simp add: ex_deal_def)
  show ?thesis
    unfolding calculateLBO_eq e c x irr_of_par_stream by (simp add: ex_lbo_model_def)
qed

subsection \<open>Revenue compounding\<close>

text \<open>
  Claim C6: in every result of \<open>calculateLBO\<close> the revenue of year 0 is the baseline
  (the supplied base revenue, else EBITDA over the first margin), and the revenue of
  every year \<open>y \<ge> 1\<close> is that same baseline times \<open>(1 + growth[y - 1])\<close> to the power \<open>y\<close>:
  one year's growth rate compounded \<open>y\<close> times, not the chain of the yearly rates.
\<close>

theorem calculateLBO_revenue_compounds_baseline:
  assumes "calculateLBO m dp = Inr r" and "1 \<le> y" and "y \<le> holdPeriod m"
  shows "p_revenue (projections r ! 0) = lbo_currentRevenue dp \<and>
         p_revenue (projections r ! nat y) =
           js_mul (lbo_currentRevenue dp)
             (js_pow (js_add (Num 1) (to_num (arr_get (dp_revenueGrowth dp) (y - 1)))) (nat y))"
proof -
  from calculateLBO_returns[OF assms(1)]
  have h: "0 \<le> holdPeriod m" and p: "projections r = lbo_projections m dp" by simp_all
  have y0: "0 \<le> y" "y \<noteq> 0" using assms(2) by simp_all
  have "p_revenue (lbo_projections m dp ! nat 0) = lbo_currentRevenue dp"
    unfolding lbo_projection_at[OF order_refl h] by (simp add: lbo_year_def Let_def)
  moreover have "p_revenue (lbo_projections m dp ! nat y) =
      js_mul (lbo_currentRevenue dp)
        (js_pow (js_add (Num 1) (to_num (arr_get (dp_revenueGrowth dp) (y - 1)))) (nat y))"
    unfolding lbo_projection_at[OF y0(1) assms(3)] using y0(2)
    by (simp add: lbo_year_def Let_def)
  ultimately show ?thesis by (simp add: p)
qed

theorem calculateLBO_revenue_compounds_baseline_witness:
  "calculateLBO ex_lbo_model ex_deal = Inr (lbo_result ex_lbo_model ex_deal (Num (15 / 100))) \<and>
   (1::int) \<le> 1 \<and> 1 \<le> holdPeriod ex_lbo_model \<and>
   lbo_currentRevenue ex_deal = Num 1000 \<and>
   p_revenue (projections (lbo_result ex_lbo_model ex_deal (Num (15 / 100))) ! 0) = Num 1000 \<and>
   p_revenue (projections (lbo_result ex_lbo_model ex_deal (Num (15 / 100))) ! nat 1)
     = js_mul (Num 1000) (js_pow (js_add (Num 1) (Num (1 / 10))) (nat 1)) \<and>
   p_revenue (projections (lbo_result ex_lbo_model ex_deal (Num (15 / 100))) ! nat 1) = Num 1100"
proof -
  have r: "lbo_currentRevenue ex_deal = Num 1000"
    by (simp add: lbo_currentRevenue_def ex_deal_def)
  have g: "arr_get (dp_revenueGrowth ex_deal) 0 = Some (Num (1 / 10))"
    by (simp add: arr_get_def ex_deal_def)
  show ?thesis
    using calculateLBO_revenue_compounds_baseline [OF ex_deal_returns, of 1] ex_deal_returns
    by (simp add: r g ex_lbo_model_def)
qed

subsection \<open>Debt paydown\<close>

text \<open>
  A \<open>NaN\<close> in the stream keeps the net present value \<open>NaN\<close> at every rate, so the root
  finder cannot converge; and a debt balance that is \<open>NaN\<close> stays \<open>NaN\<close> up to the exit
  year, where it enters the last cash flow. A run that returns therefore has no \<open>NaN\<close>
  debt balance.
\<close>

lemma js_add_NaN_right [simp]: "js_add x NaN = NaN"
  by (cases x) simp_all

lemma foldl_js_add_NaN [simp]: "foldl js_add NaN xs = NaN"
  by (induction xs) simp_all

lemma foldl_js_add_contains_NaN: "NaN \<in> set xs \<Longrightarrow> foldl js_add a xs = NaN"
  by (induction xs arbitrary: a) auto

lemma npv_of_NaN_stream:
  assumes "NaN \<in> set cfs"
  shows "fst (npv_and_derivative cfs rate) = NaN"
proof -
  from assms obtain i where i: "i < length cfs" "cfs ! i = NaN"
    by (auto simp: in_set_conv_nth)
  then have "js_div (cfs ! i) (js_pow (js_add (Num 1) rate) i) = NaN" by simp
  with i(1) have "NaN \<in> set (map (\<lambda>i. js_div (cfs ! i) (js_pow (js_add (Num 1) rate) i))
                      [0..<length cfs])"
    by (force simp: image_iff)
  then show ?thesis
    by (simp add: npv_and_derivative_def fst_foldl_npv_step foldl_js_add_contains_NaN
          del: set_map)
qed

lemma allCashFlows_NaN: "NaN \<in> set (allCashFlows i0 cs NaN)"
proof -
  have "length cs < length (js_neg i0 # cs)" by simp
  then have "NaN \<in> set ((js_neg i0 # cs)[length cs := NaN])"
    by (rule set_update_memI)
  moreover have "allCashFlows i0 cs NaN = (js_neg i0 # cs)[length cs := NaN]"
    by (simp add: allCashFlows_def Let_def del: list_update.simps)
  ultimately show ?thesis by (simp only:)
qed

lemma calculateIRR_NaN_terminal: "calculateIRR i0 cs NaN \<noteq> Inr rate"
proof
  assume "calculateIRR i0 cs NaN = Inr rate"
  then obtain n where "converged (allCashFlows i0 cs NaN) (newton_rate (allCashFlows i0 cs NaN) n)"
    unfolding calculateIRR_Inr_iff by blast
  then show False
    by (simp add: converged_def npv_of_NaN_stream[OF allCashFlows_NaN])
qed

lemma debt_step_NaN: "p_debtBalance (lbo_year dp y NaN) = NaN"
  by (simp add: lbo_year_def Let_def js_sub_def js_max_def)

lemma debt_floor: "js_max (Num 0) x \<noteq> NaN \<Longrightarrow> js_le (Num 0) (js_max (Num 0) x)"
  by (cases x) (auto simp: js_max_def)

lemma debt_paydown_only:
  assumes "js_max (Num 0) (js_sub c (js_max (Num 0) q)) \<noteq> NaN" and "js_le (Num 0) c"
  shows "js_le (js_max (Num 0) (js_sub c (js_max (Num 0) q))) c"
  using assms by (cases c; cases q) (auto simp: js_max_def js_sub_def split: if_splits)

lemma debt_step:
  assumes "p_debtBalance (lbo_year dp y c) \<noteq> NaN"
  shows "js_le (Num 0) (p_debtBalance (lbo_year dp y c))"
    and "js_le (Num 0) c \<Longrightarrow> js_le (p_debtBalance (lbo_year dp y c)) c"
  using assms debt_floor debt_paydown_only
  by (simp_all add: lbo_year_def Let_def)


lemma debt_NaN_persists:
  "j \<le> k \<Longrightarrow> k < n \<Longrightarrow> p_debtBalance (lbo_records dp n ! j) = NaN \<Longrightarrow>
   p_debtBalance (lbo_records dp n ! k) = NaN"
proof (induction k)
  case 0
  then show ?case by simp
next
  case (Suc k)
  show ?case
  proof (cases "j = Suc k")
    case True
    with Suc.prems show ?thesis by simp
  next
    case False
    with Suc.prems have "j \<le> k" "k < n" by simp_all
    then have "p_debtBalance (lbo_records dp n ! k) = NaN"
      using Suc.IH Suc.prems(3) by simp
    then show ?thesis
      using lbo_records_nth[OF Suc.prems(2), of dp] by (simp add: debt_step_NaN)
  qed
qed

text \<open>
  Claim C3: in every run of \<open>calculateLBO\<close> that returns, over the years 0 to
  \<open>holdPeriod\<close>, every debt balance is at least 0 and every debt balance after year 0 is
  at most the one of the year before, for all deal parameters.
\<close>

theorem calculateLBO_debt_monotone:
  assumes "calculateLBO m dp = Inr r"
  shows "length (projections r) = nat (holdPeriod m) + 1 \<and>
         (\<forall>y < length (projections r). js_ge (p_debtBalance (projections r ! y)) (Num 0)) \<and>
         (\<forall>y. 1 \<le> y \<and> y < length (projections r) \<longrightarrow>
            js_le (p_debtBalance (projections r ! y)) (p_debtBalance (projections r ! (y - 1))))"
proof -
  let ?n = "nat (holdPeriod m + 1)"
  let ?recs = "lbo_records dp ?n"
  from calculateLBO_returns[OF assms]
  have h: "0 \<le> holdPeriod m" and p: "projections r = ?recs"
    by (simp_all add: lbo_projections_def)
  from calculateLBO_returns[OF assms] obtain irr where
    irr: "calculateIRR (lbo_equityContribution dp) (lbo_cashFlows m dp)
            (lbo_exitEquityValue m dp) = Inr irr"
    by blast
  have x: "lbo_exitEquityValue m dp \<noteq> NaN"
  proof
    assume "lbo_exitEquityValue m dp = NaN"
    with irr calculateIRR_NaN_terminal[of "lbo_equityContribution dp" "lbo_cashFlows m dp" irr]
    show False by simp
  qed
  have exit: "p_debtBalance (last ?recs) \<noteq> NaN"
  proof
    assume "p_debtBalance (last ?recs) = NaN"
    then have "lbo_exitEquityValue m dp = NaN"
      by (simp add: lbo_exitEquityValue_def lbo_projections_def js_sub_def)
    with x show False by simp
  qed
  have n: "0 < ?n" using h by simp
  then have ne: "?recs \<noteq> []" by (metis length_lbo_records length_greater_0_conv)
  have last: "last ?recs = ?recs ! (?n - 1)"
    using last_conv_nth[OF ne] by simp
  have finite: "p_debtBalance (?recs ! y) \<noteq> NaN" if "y < ?n" for y
  proof
    assume "p_debtBalance (?recs ! y) = NaN"
    moreover have "y \<le> ?n - 1" "?n - 1 < ?n" using that n by simp_all
    ultimately have "p_debtBalance (?recs ! (?n - 1)) = NaN"
      using debt_NaN_persists[of y "?n - 1" ?n dp] by blast
    with exit last show False by simp
  qed
  have nonneg: "js_le (Num 0) (p_debtBalance (?recs ! y))" if lt: "y < ?n" for y
  proof -
    define c where "c = (if y = 0 then lbo_totalDebt dp else p_debtBalance (?recs ! (y - 1)))"
    have eq: "?recs ! y = lbo_year dp (int y) c"
      unfolding c_def by (rule lbo_records_nth[OF lt])
    have "p_debtBalance (lbo_year dp (int y) c) \<noteq> NaN"
      using finite[OF lt] eq by simp
    from debt_step(1)[OF this] show ?thesis by (simp only: eq)
  qed
  have mono: "js_le (p_debtBalance (?recs ! y)) (p_debtBalance (?recs ! (y - 1)))"
    if "1 \<le> y" "y < ?n" for y
  proof -
    have y1: "y - 1 < ?n" using that by simp
    have y0: "y \<noteq> 0" using that by simp
    have eq: "?recs ! y = lbo_year dp (int y) (p_debtBalance (?recs ! (y - 1)))"
      using lbo_records_nth[OF that(2), of dp] y0 by simp
    have "p_debtBalance (lbo_year dp (int y) (p_debtBalance (?recs ! (y - 1)))) \<noteq> NaN"
      using finite[OF that(2)] eq by simp
    from debt_step(2)[OF this nonneg[OF y1]] show ?thesis by (simp only: eq)
  qed
  have len: "length (projections r) = nat (holdPeriod m) + 1"
    using h by (simp add: p nat_add_distrib)
  have n': "?n = nat (holdPeriod m) + 1" using h by (simp add: nat_add_distrib)
  have a: "\<forall>y < length (projections r). js_ge (p_debtBalance (projections r ! y)) (Num 0)"
    unfolding p js_ge_def using nonneg by simp
  have b: "\<forall>y. 1 \<le> y \<and> y < length (projections r) \<longrightarrow>
            js_le (p_debtBalance (projections r ! y)) (p_debtBalance (projections r ! (y - 1)))"
    unfolding p using mono by simp
  from len a b show ?thesis by blast
qed

theorem calculateLBO_debt_monotone_witness:
  "calculateLBO ex_lbo_model ex_deal = Inr (lbo_result ex_lbo_model ex_deal (Num (15 / 100))) \<and>
   length (projections (lbo_result ex_lbo_model ex_deal (Num (15 / 100)))) = 2 \<and>
   map p_debtBalance (projections (lbo_result ex_lbo_model ex_deal (Num (15 / 100))))
     = [Num 40, Num 0] \<and>
   js_ge (p_debtBalance (projections (lbo_result ex_lbo_model ex_deal (Num (15 / 100))) ! 0))
     (Num 0) \<and>
   js_ge (p_debtBalance (projections (lbo_result ex_lbo_model ex_deal (Num (15 / 100))) ! 1))
     (Num 0) \<and>
   js_le (p_debtBalance (projections (lbo_result ex_lbo_model ex_deal (Num (15 / 100))) ! 1))
     (p_debtBalance (projections (lbo_result ex_lbo_model ex_deal (Num (15 / 100))) ! (1 - 1)))"
proof -
  let ?P = "projections (lbo_result ex_lbo_model ex_deal (Num (15 / 100)))"
  have p: "?P = lbo_projections ex_lbo_model ex_deal"
    by (simp add: lbo_result_def Let_def)
  have len: "0 < length ?P" "1 < length ?P" "(1::nat) \<le> 1"
    unfolding p by (simp_all add: ex_deal_projections)
  note t = calculateLBO_debt_monotone [OF ex_deal_returns]
  from t have "\<forall>y < length ?P. js_ge (p_debtBalance (?P ! y)) (Num 0)" by blast
  with len have a: "js_ge (p_debtBalance (?P ! 0)) (Num 0)" "js_ge (p_debtBalance (?P ! 1)) (Num 0)"
    by blast+
  from t have "\<forall>y. 1 \<le> y \<and> y < length ?P \<longrightarrow>
      js_le (p_debtBalance (?P ! y)) (p_debtBalance (?P ! (y - 1)))" by blast
  with len have b: "js_le (p_debtBalance (?P ! 1)) (p_debtBalance (?P ! (1 - 1)))"
    by blast
  have c: "length ?P = 2" "map p_debtBalance ?P = [Num 40, Num 0]"
    unfolding p by (simp_all add: ex_deal_projections)
  from ex_deal_returns a b c show ?thesis by blast
qed

subsection \<open>Failures of the point estimate\<close>

lemma zero_ebitda_projections:
  "lbo_projections ex_lbo_model zero_ebitda_deal =
     [\<lparr>p_year = 0, p_revenue = Num 0, p_ebitda = Num 0, p_ebit = Num 0,
       p_netIncome = Num (- 10), p_freeCashFlow = Num (- 10), p_debtBalance = Num 100,
       p_debtPaydown = Num 0, p_cashToSponsor = Num (- 10),
       p_creditMetrics =
         \<lparr>cm_debtToEbitda = PosInf, cm_ebitdaToInterest = Num 0,
          cm_fcfToDebt = Num (- (1 / 10))\<rparr>\<rparr>,
      \<lparr>p_year = 1, p_revenue = Num 0, p_ebitda = Num 0, p_ebit = Num 0,
       p_netIncome = Num (- 10), p_freeCashFlow = Num 230, p_debtBalance = Num 0,
       p_debtPaydown = Num 115, p_cashToSponsor = Num 115,
       p_creditMetrics =
         \<lparr>cm_debtToEbitda = NaN, cm_ebitdaToInterest = Num 0, cm_fcfToDebt = PosInf\<rparr>\<rparr>]"
  by (simp add: lbo_projections_def ex_lbo_model_def zero_ebitda_deal_def numeral_2_eq_2
        lbo_year_def lbo_currentRevenue_def lbo_totalDebt_def calculateInterestExpense_def
        arr_get_def js_sub_def js_max_def js_inf_signed_def Let_def)

lemma zero_ebitda_returns:
  "calculateLBO ex_lbo_model zero_ebitda_deal
     = Inr (lbo_result ex_lbo_model zero_ebitda_deal (Num (15 / 100)))"
proof -
  have e: "lbo_equityContribution zero_ebitda_deal = Num 100"
    by (simp add: lbo_equityContribution_def lbo_totalDebt_def zero_ebitda_deal_def js_sub_def)
  have c: "lbo_cashFlows ex_lbo_model zero_ebitda_deal = [Num 115]"
    by (simp add: lbo_cashFlows_def zero_ebitda_projections)
  have x: "lbo_exitEquityValue ex_lbo_model zero_ebitda_deal = Num 0"
    by (simp add: lbo_exitEquityValue_def zero_ebitda_projections js_sub_def)
       (simp add: zero_ebitda_deal_def)
  have i: "calculateIRR (Num 100) [Num 115] (Num 0) = Inr (Num (15 / 100))"
    by (simp add: calculateIRR_def allCashFlows_def irr_loop.simps maxIterations_def
          tolerance_def npv_and_derivative_def npv_step_def upt_rec js_sub_def)
  show ?thesis
    unfolding calculateLBO_eq e c x i by (simp add: ex_lbo_model_def)
qed

lemma flat_deal_fails:
  "calculateLBO ex_lbo_model flat_deal = Inl (LBOCalculationFailed (IRRFailed DerivativeTooSmall))"
proof -
  have p: "lbo_projections ex_lbo_model flat_deal =
     [\<lparr>p_year = 0, p_revenue = Num 1000, p_ebitda = Num 200, p_ebit = Num 170,
       p_netIncome = Num 120, p_freeCashFlow = Num 120, p_debtBalance = Num 40,
       p_debtPaydown = Num 60, p_cashToSponsor = Num 60,
       p_creditMetrics =
         \<lparr>cm_debtToEbitda = Num (1 / 5), cm_ebitdaToInterest = Num 20, cm_fcfToDebt = Num 3\<rparr>\<rparr>,
      \<lparr>p_year = 1, p_revenue = Num 1100, p_ebitda = Num 220, p_ebit = Num 187,
       p_netIncome = Num (549 / 4), p_freeCashFlow = Num 40, p_debtBalance = Num 20,
       p_debtPaydown = Num 20, p_cashToSponsor = Num 20,
       p_creditMetrics =
         \<lparr>cm_debtToEbitda = Num (1 / 11), cm_ebitdaToInterest = Num 55, cm_fcfToDebt = Num 2\<rparr>\<rparr>]"
    by (simp add: lbo_projections_def ex_lbo_model_def flat_deal_def ex_deal_def numeral_2_eq_2
          lbo_year_def lbo_currentRevenue_def lbo_totalDebt_def calculateInterestExpense_def
          arr_get_def js_sub_def js_max_def js_inf_signed_def Let_def)
  have e: "lbo_equityContribution flat_deal = Num 1000"
    by (simp add: lbo_equityContribution_def lbo_totalDebt_def flat_deal_def ex_deal_def
          js_sub_def)
  have c: "lbo_cashFlows ex_lbo_model flat_deal = [Num 20]"
    by (simp add: lbo_cashFlows_def p)
  have x: "lbo_exitEquityValue ex_lbo_model flat_deal = Num (- 20)"
    by (simp add: lbo_exitEquityValue_def p js_sub_def) (simp add: flat_deal_def)
  have i: "calculateIRR (Num 1000) [Num 20] (Num (- 20)) = Inl DerivativeTooSmall"
    by (simp add: calculateIRR_def allCashFlows_def irr_loop.simps maxIterations_def
          tolerance_def npv_and_derivative_def npv_step_def upt_rec js_sub_def)
  show ?thesis
    unfolding calculateLBO_eq e c x i by (simp add: ex_lbo_model_def)
qed

text \<open>
  Claim C5 says that \<open>calculateLBO\<close> raises an error for any input with an EBITDA of 0
  in some year. The code divides without a guard: for the deal without EBITDA the root
  finder converges at once (the stream is \<open>[-100, 115]\<close>) and the call returns a result
  whose \<open>debtToEbitda\<close> is \<open>Infinity\<close> in year 0 and \<open>NaN\<close> in year 1 and whose
  \<open>maxDebtToEbitda\<close> is \<open>NaN\<close>.
\<close>

theorem calculateLBO_division_guard_counterexample:
  "(case calculateLBO ex_lbo_model zero_ebitda_deal of
      Inl e \<Rightarrow> False
    | Inr r \<Rightarrow>
        map p_ebitda (projections r) = [Num 0, Num 0] \<and>
        map (\<lambda>p. cm_debtToEbitda (p_creditMetrics p)) (projections r) = [PosInf, NaN] \<and>
        map (\<lambda>p. cm_fcfToDebt (p_creditMetrics p)) (projections r)
          = [Num (- (1 / 10)), PosInf] \<and>
        entryDebtToEbitda (creditMetrics r) = PosInf \<and>
        maxDebtToEbitda (creditMetrics r) = NaN \<and>
        rt_irr (returns r) = Num (15 / 100))"
proof -
  have t: "lbo_totalDebt zero_ebitda_deal = Num 100"
    by (simp add: lbo_totalDebt_def zero_ebitda_deal_def)
  have d: "to_num (dp_ebitda zero_ebitda_deal) = Num 0"
    by (simp add: zero_ebitda_deal_def)
  show ?thesis
    unfolding zero_ebitda_returns
    by (simp add: lbo_result_def Let_def zero_ebitda_projections t d js_max_list_def js_max_def
          js_inf_signed_def)
qed

text \<open>
  Claim C5 as amended: \<open>calculateLBO\<close> fails exactly when the hold period is negative
  or the root finder fails, and a failure of the root finder is passed on as
  "LBO calculation failed"; whenever the root finder returns, \<open>calculateLBO\<close> returns a
  result, whatever the EBITDA of the years is.
\<close>

theorem calculateLBO_failure_causes:
  "(isl (calculateLBO m dp) \<longleftrightarrow>
      holdPeriod m < 0 \<or>
      isl (calculateIRR (lbo_equityContribution dp) (lbo_cashFlows m dp)
             (lbo_exitEquityValue m dp))) \<and>
   (\<forall>e. 0 \<le> holdPeriod m \<and>
        calculateIRR (lbo_equityContribution dp) (lbo_cashFlows m dp) (lbo_exitEquityValue m dp)
          = Inl e \<longrightarrow>
        calculateLBO m dp = Inl (LBOCalculationFailed (IRRFailed e))) \<and>
   (\<forall>irr. 0 \<le> holdPeriod m \<and>
        calculateIRR (lbo_equityContribution dp) (lbo_cashFlows m dp) (lbo_exitEquityValue m dp)
          = Inr irr \<longrightarrow>
        calculateLBO m dp = Inr (lbo_result m dp irr))"
  by (auto simp: calculateLBO_eq split: sum.splits)

theorem calculateLBO_failure_causes_witness:
  "0 \<le> holdPeriod ex_lbo_model \<and>
   calculateIRR (lbo_equityContribution flat_deal) (lbo_cashFlows ex_lbo_model flat_deal)
     (lbo_exitEquityValue ex_lbo_model flat_deal) = Inl DerivativeTooSmall \<and>
   calculateLBO ex_lbo_model flat_deal
     = Inl (LBOCalculationFailed (IRRFailed DerivativeTooSmall)) \<and>
   calculateIRR (lbo_equityContribution zero_ebitda_deal)
     (lbo_cashFlows ex_lbo_model zero_ebitda_deal)
     (lbo_exitEquityValue ex_lbo_model zero_ebitda_deal) = Inr (Num (15 / 100)) \<and>
   calculateLBO ex_lbo_model zero_ebitda_deal
     = Inr (lbo_result ex_lbo_model zero_ebitda_deal (Num (15 / 100)))"
proof -
  have h: "0 \<le> holdPeriod ex_lbo_model" by (simp add: ex_lbo_model_def)
  note t1 = calculateLBO_failure_causes [of ex_lbo_model flat_deal]
  note t2 = calculateLBO_failure_causes [of ex_lbo_model zero_ebitda_deal]
  have a: "calculateIRR (lbo_equityContribution flat_deal) (lbo_cashFlows ex_lbo_model flat_deal)
     (lbo_exitEquityValue ex_lbo_model flat_deal) = Inl DerivativeTooSmall"
    using flat_deal_fails h unfolding calculateLBO_eq by (auto split: sum.splits)
  have b: "calculateIRR (lbo_equityContribution zero_ebitda_deal)
     (lbo_cashFlows ex_lbo_model zero_ebitda_deal)
     (lbo_exitEquityValue ex_lbo_model zero_ebitda_deal) = Inr (Num (15 / 100))"
    using zero_ebitda_returns h unfolding calculateLBO_eq
    by (auto split: sum.splits simp: lbo_result_def Let_def)
  from t1 h a have "calculateLBO ex_lbo_model flat_deal
     = Inl (LBOCalculationFailed (IRRFailed DerivativeTooSmall))" by blast
  moreover from t2 h b have "calculateLBO ex_lbo_model zero_ebitda_deal
     = Inr (lbo_result ex_lbo_model zero_ebitda_deal (Num (15 / 100)))" by blast
  ultimately show ?thesis using h a b by blast
qed

section \<open>Properties of the Monte Carlo simulation and the sensitivity grids\<close>

subsection \<open>The rates of a Monte Carlo iteration\<close>

lemma js_max_Num [simp]: "js_max (Num a) (Num b) = Num (max a b)"
  by (simp add: js_max_def max_def)

lemma js_min_Num [simp]: "js_min (Num a) (Num b) = Num (min a b)"
  by (simp add: js_min_def min_def)

lemma snd_normalRandom [simp]: "snd (normalRandom draws pos mean std) = pos + 2"
  by (simp add: normalRandom_def Let_def)

lemma snd_random_year [simp]: "snd (random_year pj draws pos year rp) = pos + 10"
  by (simp add: random_year_def case_prod_beta Let_def)

lemma snd_random_projections_loop:
  "0 \<le> year \<Longrightarrow>
   snd (random_projections_loop m pj draws pos year rp)
     = pos + 10 * nat (projectionYears m - year)"
proof (induction m pj draws pos year rp rule: random_projections_loop.induct)
  case (1 m pj draws pos year rp)
  show ?case
  proof (cases "year < projectionYears m")
    case False
    then show ?thesis by (subst random_projections_loop.simps) simp
  next
    case True
    obtain rp1 pos1 where ry: "random_year pj draws pos year rp = (rp1, pos1)"
      by (cases "random_year pj draws pos year rp")
    then have pos1: "pos1 = pos + 10" using snd_random_year[of pj draws pos year rp] by simp
    have "snd (random_projections_loop m pj draws pos1 (year + 1) rp1)
        = pos1 + 10 * nat (projectionYears m - (year + 1))"
      using "1.IH"[OF True ry[symmetric] refl] "1.prems" by simp
    moreover have "nat (projectionYears m - year) = Suc (nat (projectionYears m - (year + 1)))"
      using True "1.prems" by simp
    ultimately show ?thesis
      using True ry pos1 by (subst random_projections_loop.simps) simp
  qed
qed

lemma snd_generateRandomProjections:
  "snd (generateRandomProjections m pj draws pos) = pos + 10 * nat (projectionYears m)"
  by (simp add: generateRandomProjections_def snd_random_projections_loop)

lemma cos_quarter_turn: "cos (2 * pi * (1 / 4)) = 0"
  by simp

lemma box_muller_quarter: "box_muller (1 / 4) (1 / 4) = Num 0"
proof -
  have "ln (1 / 4 :: real) < 0" by simp
  then have "0 \<le> - 2 * ln (1 / 4 :: real)" by simp
  then show ?thesis by (simp add: box_muller_def)
qed


lemma ex_random_projections:
  "generateRandomProjections ex_model ex_zero_projections (\<lambda>i. 1 / 4) 0 =
     (\<lparr>pj_revenueGrowth = [Num (5 / 100)], pj_ebitdaMargin = [Num (15 / 100)],
       pj_depreciation = [Num 0], pj_capex = [Num 0], pj_workingCapitalChange = [Num 0]\<rparr>, 10)"
  by (simp add: generateRandomProjections_def random_projections_loop.simps ex_model_def
        random_year_def normalRandom_def box_muller_quarter ex_zero_projections_def arr_get_def
        Let_def)

text \<open>
  Claim C7 says that the discount rate of an iteration is the base rate plus a normal
  sample by the Box-Muller transform. The code adds \<open>(u - 0.5) * 0.04\<close> for a single
  draw \<open>u\<close>. With every draw equal to 1/4 the Box-Muller value is 0 (the cosine of a
  quarter turn) and the rates of the specification are the base rates 10% and 2.5%,
  while the code computes with 9% and 2%.
\<close>

theorem monteCarloDCF_rates_counterexample:
  "discountRate (fst (mc_model ex_model (\<lambda>i. 1 / 4) 10)) = Num (9 / 100) \<and>
   spec_mc_discountRate (discountRate ex_model) (1 / 4) (1 / 4) = Num (10 / 100) \<and>
   terminalGrowthRate (fst (mc_model ex_model (\<lambda>i. 1 / 4) 10)) = Num (2 / 100) \<and>
   spec_mc_terminalGrowthRate (terminalGrowthRate ex_model) (1 / 4) (1 / 4) = Num (25 / 1000)"
  by (simp add: mc_model_def ex_model_def spec_mc_discountRate_def spec_mc_terminalGrowthRate_def
        box_muller_quarter js_sub_def Let_def)

text \<open>
  Claim C7 as amended: in an iteration that starts at draw \<open>pos\<close>, the per-year
  assumptions take the first \<open>10 * projectionYears\<close> draws, and for finite base rates
  \<open>d\<close> and \<open>g\<close> the point estimate is run with the discount rate
  \<open>max 0.05 (d + (u - 0.5) * 0.04)\<close> and the terminal growth rate
  \<open>max 0 (min 0.05 (g + (u' - 0.5) * 0.02))\<close> for the next two draws \<open>u\<close> and \<open>u'\<close>: one
  uniform draw each and no Box-Muller value (a draw between 0 and 1 moves the rate by
  at most 2%, respectively 1%, before the clamp).
\<close>

theorem monteCarloDCF_rates_uniform:
  assumes "discountRate m = Num d" and "terminalGrowthRate m = Num g"
    and "generateRandomProjections m pj draws pos = (rp, pos1)"
  shows "pos1 = pos + 10 * nat (projectionYears m) \<and>
         mc_iteration m fd pj draws pos =
           (case calculateDCF
                   (m\<lparr>discountRate := Num (max (5 / 100) (d + (draws pos1 - 1 / 2) * (4 / 100))),
                      terminalGrowthRate :=
                        Num (max 0 (min (5 / 100) (g + (draws (pos1 + 1) - 1 / 2) * (2 / 100))))\<rparr>)
                   fd rp of
              Inr dcfResult \<Rightarrow>
                Some \<lparr>smp_intrinsicValue = intrinsicValue dcfResult,
                      smp_upside = upside dcfResult,
                      smp_presentValue = presentValue dcfResult\<rparr>
            | Inl e \<Rightarrow> None,
            pos1 + 2)"
proof -
  have "pos1 = pos + 10 * nat (projectionYears m)"
    using snd_generateRandomProjections[of m pj draws pos] assms(3) by simp
  moreover have "mc_model m draws pos1 =
      (m\<lparr>discountRate := Num (max (5 / 100) (d + (draws pos1 - 1 / 2) * (4 / 100))),
         terminalGrowthRate :=
           Num (max 0 (min (5 / 100) (g + (draws (pos1 + 1) - 1 / 2) * (2 / 100))))\<rparr>,
       pos1 + 2)"
    using assms(1,2) by (simp add: mc_model_def Let_def js_sub_def)
  ultimately show ?thesis
    using assms(3) by (simp add: mc_iteration_def)
qed

theorem monteCarloDCF_rates_uniform_witness:
  "discountRate ex_model = Num (10 / 100) \<and> terminalGrowthRate ex_model = Num (25 / 1000) \<and>
   generateRandomProjections ex_model ex_zero_projections (\<lambda>i. 1 / 4) 0 =
     (\<lparr>pj_revenueGrowth = [Num (5 / 100)], pj_ebitdaMargin = [Num (15 / 100)],
       pj_depreciation = [Num 0], pj_capex = [Num 0], pj_workingCapitalChange = [Num 0]\<rparr>, 10) \<and>
   mc_iteration ex_model ex_snapshot ex_zero_projections (\<lambda>i. 1 / 4) 0 =
     (Some \<lparr>smp_intrinsicValue = Num 12, smp_upside = Num (- (23 / 25)),
            smp_presentValue = Num 1200\<rparr>, 12)"
proof -
  have a: "discountRate ex_model = Num (10 / 100)" "terminalGrowthRate ex_model = Num (25 / 1000)"
    by (simp_all add: ex_model_def)
  have c: "calculateDCF
       (ex_model\<lparr>discountRate := Num (max (5 / 100) (10 / 100 + (1 / 4 - 1 / 2) * (4 / 100))),
          terminalGrowthRate :=
            Num (max 0 (min (5 / 100) (25 / 1000 + (1 / 4 - 1 / 2) * (2 / 100))))\<rparr>)
       ex_snapshot
       \<lparr>pj_revenueGrowth = [Num (5 / 100)], pj_ebitdaMargin = [Num (15 / 100)],
        pj_depreciation = [Num 0], pj_capex = [Num 0], pj_workingCapitalChange = [Num 0]\<rparr>
     = Inr X \<Longrightarrow>
     intrinsicValue X = Num 12 \<and> upside X = Num (- (23 / 25)) \<and> presentValue X = Num 1200" for X
    by (auto simp: calculateDCF_Inr_iff dcf_result_def ex_model_def ex_snapshot_def dcf_year_def
          arr_get_def js_sub_def js_gt_def Let_def)
  have d: "isl (calculateDCF
       (ex_model\<lparr>discountRate := Num (max (5 / 100) (10 / 100 + (1 / 4 - 1 / 2) * (4 / 100))),
          terminalGrowthRate :=
            Num (max 0 (min (5 / 100) (25 / 1000 + (1 / 4 - 1 / 2) * (2 / 100))))\<rparr>)
       ex_snapshot
       \<lparr>pj_revenueGrowth = [Num (5 / 100)], pj_ebitdaMargin = [Num (15 / 100)],
        pj_depreciation = [Num 0], pj_capex = [Num 0], pj_workingCapitalChange = [Num 0]\<rparr>)
     = False"
    by (simp add: calculateDCF_returns ex_model_def)
  show ?thesis
    using monteCarloDCF_rates_uniform [OF a ex_random_projections, of ex_snapshot] a
      ex_random_projections c d
    by (auto split: sum.splits)
qed

subsection \<open>Failures inside a batch\<close>

text \<open>
  The DCF grid is left by the first call of \<open>calculateDCF\<close> that throws; when no call
  throws it has one row for every cell and leaves the engine as it was. The Monte Carlo
  loop of the DCF engine and the LBO grid go on after a call that throws and keep the
  successful samples and cells only.
\<close>


lemma dcf_sensitivity_loop_aborts:
  assumes "projectionYears m < 1" and "cells \<noteq> []"
  shows "fst (dcf_sensitivity_loop m fd pj cells results) = Inl (DCFCalculationFailed TypeError)"
proof (cases cells)
  case Nil
  with assms(2) show ?thesis by simp
next
  case (Cons c cs)
  obtain d g where c: "c = (d, g)" by (cases c)
  show ?thesis
    using assms(1) by (simp add: Cons c calculateDCF_fails Let_def)
qed

lemma dcf_sensitivity_loop_complete:
  assumes "1 \<le> projectionYears m"
  shows "\<exists>rows. dcf_sensitivity_loop m fd pj cells results = (Inr (results @ rows), m) \<and>
           length rows = length cells"
  using assms
proof (induction cells arbitrary: results)
  case Nil
  then show ?case by simp
next
  case (Cons c cs)
  obtain d g where c: "c = (d, g)" by (cases c)
  let ?m1 = "m\<lparr>discountRate := d, terminalGrowthRate := g\<rparr>"
  let ?row = "\<lparr>row_discountRate = d, row_terminalGrowthRate = g,
                row_intrinsicValue = intrinsicValue (dcf_result ?m1 fd pj),
                row_upside = upside (dcf_result ?m1 fd pj)\<rparr>"
  have ret: "calculateDCF ?m1 fd pj = Inr (dcf_result ?m1 fd pj)"
    using Cons.prems by (simp add: calculateDCF_returns)
  have restore: "?m1\<lparr>discountRate := discountRate m, terminalGrowthRate := terminalGrowthRate m\<rparr> = m"
    by simp
  from Cons.IH[OF Cons.prems, of "results @ [?row]"] obtain rows where
    rows: "dcf_sensitivity_loop m fd pj cs (results @ [?row]) = (Inr ((results @ [?row]) @ rows), m)"
      "length rows = length cs" by blast
  have "dcf_sensitivity_loop m fd pj (c # cs) results = (Inr (results @ (?row # rows)), m)"
    using rows(1) by (simp add: c ret restore Let_def)
  with rows(2) show ?case by (intro exI[of _ "?row # rows"]) simp
qed

lemma length_mc_loop:
  "length (fst (mc_loop m fd pj draws pos k results)) \<le> length results + k"
proof (induction k arbitrary: pos results)
  case 0
  then show ?case by simp
next
  case (Suc k)
  obtain s pos1 where it: "mc_iteration m fd pj draws pos = (s, pos1)"
    by (cases "mc_iteration m fd pj draws pos")
  show ?case
  proof (cases s)
    case None
    with it Suc.IH[of pos1 results] show ?thesis by simp
  next
    case (Some a)
    with it Suc.IH[of pos1 "results @ [a]"] show ?thesis by simp
  qed
qed

lemma mc_iteration_fails:
  "projectionYears m < 1 \<Longrightarrow> fst (mc_iteration m fd pj draws pos) = None"
  by (simp add: mc_iteration_def mc_model_def calculateDCF_fails case_prod_beta Let_def)

lemma mc_loop_all_fail:
  "projectionYears m < 1 \<Longrightarrow> fst (mc_loop m fd pj draws pos k results) = results"
proof (induction k arbitrary: pos)
  case 0
  then show ?case by simp
next
  case (Suc k)
  obtain s pos1 where it: "mc_iteration m fd pj draws pos = (s, pos1)"
    by (cases "mc_iteration m fd pj draws pos")
  with mc_iteration_fails[OF Suc.prems, of fd pj draws pos] have "s = None" by simp
  with it Suc.IH[OF Suc.prems, of pos1] show ?case by simp
qed

lemma monteCarloDCF_simulations_le:
  "mc_simulations (monteCarloDCF m fd pj simulations draws) \<le> simulations"
  using length_mc_loop[of m fd pj draws 0 simulations "[]"]
  by (simp add: monteCarloDCF_def Let_def)

lemma lbo_sensitivity_loop_skips:
  assumes "0 \<le> holdPeriod m"
  shows "\<exists>rows. lbo_sensitivity_loop m dp cells results = Inr (results @ rows) \<and>
           length rows \<le> length cells"
  using assms
proof (induction cells arbitrary: results)
  case Nil
  then show ?case by simp
next
  case (Cons c cs)
  obtain x g where c: "c = (x, g)" by (cases c)
  let ?dp = "dp\<lparr>dp_exitMultiple := Some x, dp_revenueGrowth := replicate (nat (holdPeriod m)) g\<rparr>"
  show ?case
  proof (cases "calculateLBO m ?dp")
    case (Inl e)
    from Cons.IH[OF Cons.prems, of results] obtain rows where
      "lbo_sensitivity_loop m dp cs results = Inr (results @ rows)" "length rows \<le> length cs"
      by blast
    with Inl Cons.prems show ?thesis by (auto simp: c Let_def)
  next
    case (Inr r)
    let ?row = "\<lparr>lrow_exitMultiple = x, lrow_revenueGrowth = g, lrow_irr = rt_irr (returns r),
                  lrow_totalMultiple = rt_totalMultiple (returns r),
                  lrow_maxLeverage = maxDebtToEbitda (creditMetrics r)\<rparr>"
    from Cons.IH[OF Cons.prems, of "results @ [?row]"] obtain rows where
      rows: "lbo_sensitivity_loop m dp cs (results @ [?row]) = Inr ((results @ [?row]) @ rows)"
        "length rows \<le> length cs"
      by blast
    have "lbo_sensitivity_loop m dp (c # cs) results = Inr (results @ (?row # rows))"
      using rows(1) Inr Cons.prems by (simp add: c Let_def)
    with rows(2) show ?thesis by (intro exI[of _ "?row # rows"]) simp
  qed
qed

text \<open>
  Claim C8 says that in every sensitivity grid and Monte Carlo batch an exception of one
  cell or draw is caught and the batch continues. The \<open>sensitivityAnalysis\<close> of the DCF
  engine does not catch: with \<open>projectionYears = -1\<close> the point estimate throws in the
  first cell and the grid call fails with that error, leaving the engine with the rates
  0.08 and 0.015 of that cell. The Monte Carlo loop on the same engine catches all 1000
  failures and ends with no sample.
\<close>

theorem dcf_sensitivityAnalysis_aborts:
  "dcf_sensitivityAnalysis (ex_model\<lparr>projectionYears := - 1\<rparr>) ex_snapshot
       ex_zero_projections \<lparr>sr_discountRates = None, sr_terminalGrowthRates = None\<rparr>
     = (Inl (DCFCalculationFailed TypeError),
        ex_model\<lparr>projectionYears := - 1, discountRate := Num (8 / 100),
                 terminalGrowthRate := Num (15 / 1000)\<rparr>) \<and>
   mc_loop (ex_model\<lparr>projectionYears := - 1\<rparr>) ex_snapshot ex_zero_projections
       (\<lambda>i. 1 / 4) 0 1000 [] = ([], 2000)"
proof -
  have "snd (mc_loop m fd pj draws pos k results) = pos + 2 * k"
    if "projectionYears m < 1" for m fd pj draws pos k results
  proof (induction k arbitrary: pos)
    case 0
    then show ?case by simp
  next
    case (Suc k)
    have n: "nat (projectionYears m) = 0" using that by simp
    have "mc_iteration m fd pj draws pos = (None, pos + 2)"
      using that
      by (simp add: mc_iteration_def mc_model_def calculateDCF_fails case_prod_beta Let_def
            snd_generateRandomProjections n)
    with Suc.IH[of "pos + 2"] show ?case by simp
  qed
  from this[of "ex_model\<lparr>projectionYears := - 1\<rparr>" ex_snapshot ex_zero_projections
      "\<lambda>i. 1 / 4" 0 1000 "[]"]
    mc_loop_all_fail[of "ex_model\<lparr>projectionYears := - 1\<rparr>" ex_snapshot ex_zero_projections
      "\<lambda>i. 1 / 4" 0 1000 "[]"]
  have "mc_loop (ex_model\<lparr>projectionYears := - 1\<rparr>) ex_snapshot ex_zero_projections
       (\<lambda>i. 1 / 4) 0 1000 [] = ([], 2000)"
    by (simp add: prod_eq_iff)
  then show ?thesis
    by (simp add: dcf_sensitivityAnalysis_def calculateDCF_fails Let_def)
qed

end
